theory Spec2Isabelle
  imports Complex_Main "HOL-Library.AList" "HOL-Library.Multiset"
begin

section \<open>Survey analysis scripts: data model\<close>

text \<open>
  The three scripts (\<^verbatim>\<open>analyze_survey.py\<close>, \<^verbatim>\<open>analyze_awareness_impact.py\<close>,
  \<^verbatim>\<open>analyze_irreplaceability.py\<close>) work on a pandas DataFrame read from one CSV
  export. A cell of the frame is blank (pandas \<^verbatim>\<open>NaN\<close>), a text, or a number.
  Numbers are modelled as exact rationals: the scripts only count, divide, average
  and compare them.
\<close>

datatype cell = NaN | Str string | Num rat

datatype error = FileNotFoundError | IndexError | KeyError string | ZeroDivisionError

text \<open>
  A row maps column names to cells; it is kept as an association list in column
  order. The frame records its column names as well, because \<^verbatim>\<open>df['c']\<close> raises
  \<^verbatim>\<open>KeyError\<close> for a column that is not there, also when the frame has no row.
\<close>

type_synonym row = "(string \<times> cell) list"

record dataframe =
  columns :: "string list"
  rows :: "row list"

definition cell_at :: "row \<Rightarrow> string \<Rightarrow> cell" where
  "cell_at r c = (case map_of r c of Some v \<Rightarrow> v | None \<Rightarrow> NaN)"

text \<open>\<^verbatim>\<open>df[c] = series\<close>: replaces the column when it exists, appends it otherwise.
  The series is given row by row.\<close>

definition assign :: "string \<Rightarrow> (row \<Rightarrow> cell) \<Rightarrow> dataframe \<Rightarrow> dataframe" where
  "assign c f df =
     \<lparr>columns = (if c \<in> set (columns df) then columns df else columns df @ [c]),
      rows = map (\<lambda>r. AList.update c (f r) r) (rows df)\<rparr>"

text \<open>The first of the columns read by an analysis that the frame lacks, as the
  \<^verbatim>\<open>KeyError\<close> that reading it raises.\<close>

fun missing_column :: "string list \<Rightarrow> dataframe \<Rightarrow> error option" where
  "missing_column [] df = None"
| "missing_column (c # cs) df =
     (if c \<in> set (columns df) then missing_column cs df else Some (KeyError c))"

subsection \<open>Series operations used by the scripts\<close>

text \<open>\<^verbatim>\<open>Series.map(dict)\<close>: a text found in the dictionary becomes its code, everything
  else (a text that is not a key, a number, a blank) becomes \<^verbatim>\<open>NaN\<close>.\<close>

definition series_map :: "(string \<rightharpoonup> int) \<Rightarrow> cell \<Rightarrow> cell" where
  "series_map d c =
     (case c of
        Str s \<Rightarrow> (case d s of Some n \<Rightarrow> Num (of_int n) | None \<Rightarrow> NaN)
      | _ \<Rightarrow> NaN)"

text \<open>\<^verbatim>\<open>series <= t\<close> on a numeric column: false on \<^verbatim>\<open>NaN\<close>. The columns compared are
  produced by \<^const>\<open>series_map\<close> and hold no text.\<close>

definition le_num :: "cell \<Rightarrow> rat \<Rightarrow> bool" where
  "le_num c t = (case c of Num x \<Rightarrow> x \<le> t | _ \<Rightarrow> False)"

text \<open>\<^verbatim>\<open>a.fillna(b)\<close>, row by row.\<close>

definition fillna :: "cell \<Rightarrow> cell \<Rightarrow> cell" where
  "fillna a b = (if a = NaN then b else a)"

text \<open>\<^verbatim>\<open>(num / total) * 100 if total > 0 else 0\<close>\<close>

definition guarded_pct :: "nat \<Rightarrow> nat \<Rightarrow> rat" where
  "guarded_pct num tot = (if tot > 0 then (of_nat num / of_nat tot) * 100 else 0)"

section \<open>The input file\<close>

text \<open>
  The CSV export has two header rows (field codes, question texts) and then the
  records. Parsing the text of the file is the library's work; a file is taken as
  parsed. A file system maps a path to the file there, if any.
\<close>

record csv_file =
  codes :: "string list"
  texts :: "string list"
  records :: "cell list list"

type_synonym filesystem = "string \<rightharpoonup> csv_file"

definition filepath :: string where
  "filepath = ''Alternative CPA Pathways Survey_December 31, 2025_09.45.csv''"

text \<open>The prefix \<^verbatim>\<open>{"ImportId"\<close> of the import-metadata row.\<close>

definition import_id_prefix :: string where
  "import_id_prefix = CHR ''{'' # CHR 0x22 # ''ImportId'' @ [CHR 0x22]"

definition startswith :: "string \<Rightarrow> string \<Rightarrow> bool" where
  "startswith s p = (take (length p) s = p)"

text \<open>\<^verbatim>\<open>pd.read_csv(filepath, header=[0, 1])\<close>, with the second header level already
  dropped: the analyses only see the frame after \<^verbatim>\<open>droplevel(1)\<close>.\<close>

definition read_csv_two_headers :: "csv_file \<Rightarrow> dataframe" where
  "read_csv_two_headers f = \<lparr>columns = codes f, rows = map (zip (codes f)) (records f)\<rparr>"

text \<open>\<^verbatim>\<open>df.iloc[0, 0]\<close> raises \<^verbatim>\<open>IndexError\<close> on a frame without rows or columns.\<close>

definition iloc_0_0 :: "dataframe \<Rightarrow> error + cell" where
  "iloc_0_0 df =
     (case (rows df, columns df) of
        (r # _, c # _) \<Rightarrow> Inr (cell_at r c)
      | _ \<Rightarrow> Inl IndexError)"

text \<open>\<^verbatim>\<open>isinstance(x, str) and x.startswith('{"ImportId"')\<close>\<close>

definition is_import_metadata :: "cell \<Rightarrow> bool" where
  "is_import_metadata x = (case x of Str s \<Rightarrow> startswith s import_id_prefix | _ \<Rightarrow> False)"

text \<open>\<^verbatim>\<open>load_and_clean_data\<close> of \<^verbatim>\<open>analyze_survey.py\<close>; the one of
  \<^verbatim>\<open>analyze_awareness_impact.py\<close> is the same without the question map.\<close>

definition load_and_clean_data ::
  "filesystem \<Rightarrow> string \<Rightarrow> error + (dataframe \<times> (string \<times> string) list)" where
  "load_and_clean_data fs path =
     (case fs path of
        None \<Rightarrow> Inl FileNotFoundError
      | Some f \<Rightarrow>
          (let df = read_csv_two_headers f;
               question_map = zip (codes f) (texts f)
           in case iloc_0_0 df of
                Inl e \<Rightarrow> Inl e
              | Inr x \<Rightarrow>
                  Inr (if is_import_metadata x then df\<lparr>rows := tl (rows df)\<rparr> else df,
                       question_map)))"

definition load_and_clean_data_impact :: "filesystem \<Rightarrow> string \<Rightarrow> error + dataframe" where
  "load_and_clean_data_impact fs path =
     (case fs path of
        None \<Rightarrow> Inl FileNotFoundError
      | Some f \<Rightarrow>
          (let df = read_csv_two_headers f
           in case iloc_0_0 df of
                Inl e \<Rightarrow> Inl e
              | Inr x \<Rightarrow> Inr (if is_import_metadata x then df\<lparr>rows := tl (rows df)\<rparr> else df)))"

text \<open>\<^verbatim>\<open>analyze_irreplaceability.py\<close> reads the file with one header row, so the
  question texts are the row labelled 0, which \<^verbatim>\<open>df.drop(0)\<close> removes. Nothing
  there looks at the import-metadata row.\<close>

definition read_csv_one_header :: "csv_file \<Rightarrow> dataframe" where
  "read_csv_one_header f =
     \<lparr>columns = codes f, rows = map (zip (codes f)) (map Str (texts f) # records f)\<rparr>"

definition drop_0 :: "dataframe \<Rightarrow> error + dataframe" where
  "drop_0 df =
     (case rows df of
        [] \<Rightarrow> Inl (KeyError ''[0] not found in axis'')
      | _ # rs \<Rightarrow> Inr (df\<lparr>rows := rs\<rparr>))"

definition load_irreplaceability :: "csv_file \<Rightarrow> error + dataframe" where
  "load_irreplaceability f = drop_0 (read_csv_one_header f)"

section \<open>analyze\_survey.py\<close>

subsection \<open>Area 1: the enrollment threat\<close>

definition q35_map :: "string \<rightharpoonup> int" where
  "q35_map = map_of
     [(''Extremely unlikely'', 1),
      (''Somewhat unlikely'', 2),
      (''Neither likely nor unlikely'', 3),
      (''Somewhat likely'', 4),
      (''Extremely likely'', 5)]"

text \<open>\<^verbatim>\<open>df[df['Q27'] == 'Graduate']\<close>\<close>

definition grad_students :: "dataframe \<Rightarrow> row list" where
  "grad_students df = filter (\<lambda>r. cell_at r ''Q27'' = Str ''Graduate'') (rows df)"

text \<open>\<^verbatim>\<open>grad_students[grad_students['Q31'] == 'No']\<close>, a copy, to which the column
  \<^verbatim>\<open>Q35_numeric\<close> is then added.\<close>

definition unaware_grad :: "dataframe \<Rightarrow> row list" where
  "unaware_grad df =
     map (\<lambda>r. AList.update ''Q35_numeric'' (series_map q35_map (cell_at r ''Q35'')) r)
       (filter (\<lambda>r. cell_at r ''Q31'' = Str ''No'') (grad_students df))"

definition potential_loss_count :: "dataframe \<Rightarrow> nat" where
  "potential_loss_count df =
     length (filter (\<lambda>r. le_num (cell_at r ''Q35_numeric'') 2) (unaware_grad df))"

record area_1_metrics =
  Total_Grad_Students :: nat
  Pct_Unaware :: rat
  Pct_Potential_Loss_of_Unaware :: rat
  Pct_Potential_Loss_Total :: rat

definition area_1_enrollment_threat :: "dataframe \<Rightarrow> error + area_1_metrics" where
  "area_1_enrollment_threat df =
     (case missing_column [''Q27'', ''Q31'', ''Q35''] df of
        Some e \<Rightarrow> Inl e
      | None \<Rightarrow>
          (let total_grad = length (grad_students df);
               num_unaware = length (unaware_grad df)
           in Inr
             \<lparr>Total_Grad_Students = total_grad,
              Pct_Unaware = guarded_pct num_unaware total_grad,
              Pct_Potential_Loss_of_Unaware = guarded_pct (potential_loss_count df) num_unaware,
              Pct_Potential_Loss_Total = guarded_pct (potential_loss_count df) total_grad\<rparr>))"


subsection \<open>Area 2: ROI belief against employer pressure\<close>

definition roi_map :: "string \<rightharpoonup> int" where
  "roi_map = map_of
     [(''Definitely not'', 1),
      (''Probably not'', 2),
      (''Might or might not'', 3),
      (''Probably yes'', 4),
      (''Definitely yes'', 5)]"

text \<open>The two assignments at the head of \<^verbatim>\<open>area_2_roi_pressure\<close>; they write into
  the caller's frame.\<close>

definition add_roi_belief_raw :: "dataframe \<Rightarrow> dataframe" where
  "add_roi_belief_raw df =
     assign ''ROI_Belief_Raw'' (\<lambda>r. fillna (cell_at r ''Q55'') (cell_at r ''Q44'')) df"

definition add_roi_belief_score :: "dataframe \<Rightarrow> dataframe" where
  "add_roi_belief_score df =
     assign ''ROI_Belief_Score'' (\<lambda>r. series_map roi_map (cell_at r ''ROI_Belief_Raw'')) df"

text \<open>\<^verbatim>\<open>df.dropna(subset=['ROI_Belief_Score', 'Q49'])\<close>\<close>

definition roi_df :: "dataframe \<Rightarrow> row list" where
  "roi_df df =
     filter (\<lambda>r. cell_at r ''ROI_Belief_Score'' \<noteq> NaN \<and> cell_at r ''Q49'' \<noteq> NaN) (rows df)"

definition reluctant :: "dataframe \<Rightarrow> row list" where
  "reluctant df =
     filter (\<lambda>r. le_num (cell_at r ''ROI_Belief_Score'') 3 \<and> cell_at r ''Q49'' = Str ''Yes'')
       (roi_df df)"

record area_2_metrics =
  Num_Reluctant_Students :: nat
  Pct_Reluctant_Students :: rat

text \<open>The function returns the metrics; the frame it has written into is returned
  with them. The division \<^verbatim>\<open>num_reluctant / len(roi_df)\<close> is between two Python
  integers and is not guarded.\<close>

definition area_2_roi_pressure :: "dataframe \<Rightarrow> error + (dataframe \<times> area_2_metrics)" where
  "area_2_roi_pressure df =
     (case missing_column [''Q55'', ''Q44'', ''Q49''] df of
        Some e \<Rightarrow> Inl e
      | None \<Rightarrow>
          (let df' = add_roi_belief_score (add_roi_belief_raw df);
               num_reluctant = length (reluctant df')
           in if length (roi_df df') = 0 then Inl ZeroDivisionError
              else Inr (df',
                \<lparr>Num_Reluctant_Students = num_reluctant,
                 Pct_Reluctant_Students =
                   (of_nat num_reluctant / of_nat (length (roi_df df'))) * 100\<rparr>)))"

subsection \<open>Area 3: program value\<close>

text \<open>
  \<^verbatim>\<open>pd.to_numeric(series, errors='coerce')\<close>: a number stays, a blank stays blank, a
  text is parsed and becomes blank when it is not a number. The library's parser of
  numeric texts is a parameter \<open>parse\<close> of the model.
\<close>

definition to_numeric :: "(string \<Rightarrow> rat option) \<Rightarrow> cell \<Rightarrow> cell" where
  "to_numeric parse c =
     (case c of
        Str s \<Rightarrow> (case parse s of Some x \<Rightarrow> Num x | None \<Rightarrow> NaN)
      | _ \<Rightarrow> c)"

definition cols :: "string list" where
  "cols = [''Q24_1'', ''Q24_2'', ''Q24_3'', ''Q24_4'', ''Q24_5'', ''Q24_6'']"

definition labels :: "string \<rightharpoonup> string" where
  "labels = map_of
     [(''Q24_1'', ''CPA Prep''),
      (''Q24_2'', ''Networking''),
      (''Q24_3'', ''Faculty Interaction''),
      (''Q24_4'', ''Technical Skills''),
      (''Q24_5'', ''Soft Skills''),
      (''Q24_6'', ''Recruiting'')]"

text \<open>\<^verbatim>\<open>for col in cols: df[col] = pd.to_numeric(df[col], errors='coerce')\<close>; the
  assignment goes to the frame itself.\<close>

fun coerce_columns ::
  "(string \<Rightarrow> rat option) \<Rightarrow> string list \<Rightarrow> dataframe \<Rightarrow> error + dataframe" where
  "coerce_columns parse [] df = Inr df"
| "coerce_columns parse (col # cs) df =
     (if col \<in> set (columns df)
      then coerce_columns parse cs (assign col (\<lambda>r. to_numeric parse (cell_at r col)) df)
      else Inl (KeyError col))"

text \<open>\<^verbatim>\<open>Series.mean()\<close> skips the blanks and is \<^verbatim>\<open>NaN\<close> when nothing is left.\<close>

definition numbers :: "cell list \<Rightarrow> rat list" where
  "numbers xs = List.map_filter (\<lambda>c. case c of Num x \<Rightarrow> Some x | _ \<Rightarrow> None) xs"

definition mean :: "cell list \<Rightarrow> cell" where
  "mean xs =
     (let vs = numbers xs
      in if vs = [] then NaN else Num (sum_list vs / of_nat (length vs)))"

definition column :: "dataframe \<Rightarrow> string \<Rightarrow> cell list" where
  "column df c = map (\<lambda>r. cell_at r c) (rows df)"

text \<open>\<^verbatim>\<open>df[cols].mean()\<close>: one mean per field, in the order of \<open>cols\<close>.\<close>

definition column_means :: "string list \<Rightarrow> dataframe \<Rightarrow> (string \<times> cell) list" where
  "column_means cs df = map (\<lambda>c. (c, mean (column df c))) cs"

text \<open>
  \<^verbatim>\<open>Series.sort_values()\<close> is called with the library's default algorithm
  (\<^verbatim>\<open>kind='quicksort'\<close>), which the library does not document as stable. What the
  call promises is an ascending rearrangement with the \<^verbatim>\<open>NaN\<close> entries last; the
  model is that contract, as a relation between the series and a result.
\<close>

definition nan_last_le :: "cell \<Rightarrow> cell \<Rightarrow> bool" where
  "nan_last_le a b =
     (case (a, b) of
        (Num x, Num y) \<Rightarrow> x \<le> y
      | (_, Num y) \<Rightarrow> False
      | _ \<Rightarrow> True)"

definition sort_values_ok :: "(string \<times> cell) list \<Rightarrow> (string \<times> cell) list \<Rightarrow> bool" where
  "sort_values_ok series ranking \<longleftrightarrow>
     mset ranking = mset series \<and>
     sorted_wrt (\<lambda>a b. nan_last_le (snd a) (snd b)) ranking"

text \<open>A ranking keeps the original order of ties when any two fields with the same
  mean stand in the ranking as they stand in the series; \<open>before xs a b\<close> says that
  \<open>b\<close> comes after the first \<open>a\<close> in \<open>xs\<close> (the entries of a series are distinct, as
  their field names are).\<close>

definition before :: "'a list \<Rightarrow> 'a \<Rightarrow> 'a \<Rightarrow> bool" where
  "before xs a b \<longleftrightarrow> b \<in> set (tl (dropWhile (\<lambda>x. x \<noteq> a) xs))"

definition ties_keep_order :: "(string \<times> cell) list \<Rightarrow> (string \<times> cell) list \<Rightarrow> bool" where
  "ties_keep_order series ranking \<longleftrightarrow>
     (\<forall>a \<in> set series. \<forall>b \<in> set series.
        snd a = snd b \<and> before series a b \<longrightarrow> before ranking a b)"

text \<open>\<^verbatim>\<open>mean_ranks = df[cols].mean().sort_values()\<close>, after the coercion: the
  rankings that \<^verbatim>\<open>area_3_program_value\<close> may compute, and the frame it leaves.\<close>

definition area_3_mean_ranks ::
  "(string \<Rightarrow> rat option) \<Rightarrow> dataframe \<Rightarrow> (string \<times> cell) list \<Rightarrow> bool" where
  "area_3_mean_ranks parse df ranking \<longleftrightarrow>
     (case coerce_columns parse cols df of
        Inl e \<Rightarrow> False
      | Inr df' \<Rightarrow> sort_values_ok (column_means cols df') ranking)"

section \<open>analyze\_awareness\_impact.py\<close>

text \<open>\<^verbatim>\<open>Series.value_counts()\<close>: the distinct non-blank values with their numbers of
  occurrences (the library also orders them by count, which only the printed
  listing shows), and \<^verbatim>\<open>counts.get(key, default)\<close>.\<close>

definition value_counts :: "cell list \<Rightarrow> (cell \<times> nat) list" where
  "value_counts xs =
     (let vs = filter (\<lambda>c. c \<noteq> NaN) xs
      in map (\<lambda>v. (v, count_list vs v)) (remdups vs))"

definition counts_get :: "(cell \<times> nat) list \<Rightarrow> cell \<Rightarrow> nat \<Rightarrow> nat" where
  "counts_get counts k d = (case map_of counts k of Some n \<Rightarrow> n | None \<Rightarrow> d)"

text \<open>\<^verbatim>\<open>df[(df['Q27'] == 'Graduate') & (df['Q31'].notna())]\<close>\<close>

definition grad_df :: "dataframe \<Rightarrow> row list" where
  "grad_df df =
     filter (\<lambda>r. cell_at r ''Q27'' = Str ''Graduate'' \<and> cell_at r ''Q31'' \<noteq> NaN) (rows df)"

definition undergrad_df :: "dataframe \<Rightarrow> row list" where
  "undergrad_df df =
     filter (\<lambda>r. cell_at r ''Q27'' = Str ''Undergraduate'' \<and> cell_at r ''Q53'' \<noteq> NaN) (rows df)"

record awareness_gap_metrics =
  grad_unaware_pct :: rat
  undergrad_unaware_pct :: rat

definition analyze_awareness_gap :: "dataframe \<Rightarrow> error + awareness_gap_metrics" where
  "analyze_awareness_gap df =
     (case missing_column [''Q27'', ''Q31'', ''Q53''] df of
        Some e \<Rightarrow> Inl e
      | None \<Rightarrow>
          (let total_grad = length (grad_df df);
               grad_aware_counts = value_counts (map (\<lambda>r. cell_at r ''Q31'') (grad_df df));
               unaware_grad_count = counts_get grad_aware_counts (Str ''No'') 0;
               total_undergrad = length (undergrad_df df);
               undergrad_aware_counts =
                 value_counts (map (\<lambda>r. cell_at r ''Q53'') (undergrad_df df));
               unaware_undergrad_count = counts_get undergrad_aware_counts (Str ''No'') 0
           in Inr
             \<lparr>grad_unaware_pct = guarded_pct unaware_grad_count total_grad,
              undergrad_unaware_pct = guarded_pct unaware_undergrad_count total_undergrad\<rparr>))"

text \<open>\<^verbatim>\<open>df[(df['Q27'] == 'Graduate') & (df['Q31'] == 'No') & (df['Q35'].notna())]\<close>\<close>

definition unaware_grads :: "dataframe \<Rightarrow> row list" where
  "unaware_grads df =
     filter (\<lambda>r. cell_at r ''Q27'' = Str ''Graduate'' \<and> cell_at r ''Q31'' = Str ''No'' \<and>
                 cell_at r ''Q35'' \<noteq> NaN) (rows df)"

definition unlikely_count :: "dataframe \<Rightarrow> nat" where
  "unlikely_count df =
     (let q35_counts = value_counts (map (\<lambda>r. cell_at r ''Q35'') (unaware_grads df))
      in counts_get q35_counts (Str ''Extremely unlikely'') 0 +
         counts_get q35_counts (Str ''Somewhat unlikely'') 0)"

record incentive_shift_metrics =
  regret_pct :: rat

text \<open>The columns are read in the order Q27, Q52 (the pie chart), Q31, Q35 (the
  regret factor), Q53 (the printed comparison).\<close>

definition analyze_incentive_shift :: "dataframe \<Rightarrow> error + incentive_shift_metrics" where
  "analyze_incentive_shift df =
     (case missing_column [''Q27'', ''Q52'', ''Q31'', ''Q35'', ''Q53''] df of
        Some e \<Rightarrow> Inl e
      | None \<Rightarrow>
          Inr \<lparr>regret_pct = guarded_pct (unlikely_count df) (length (unaware_grads df))\<rparr>)"

section \<open>analyze\_irreplaceability.py\<close>

definition relevant_columns :: "string list" where
  "relevant_columns = [''Q24_1'', ''Q24_2'', ''Q24_3'', ''Q24_4'', ''Q24_5'', ''Q24_6'']"

definition columns_mapping :: "string \<rightharpoonup> string" where
  "columns_mapping = map_of
     [(''Q24_1'', ''CPA Exam Prep''),
      (''Q24_2'', ''Networking (Peers/Alumni)''),
      (''Q24_3'', ''Faculty Interaction''),
      (''Q24_4'', ''Technical Skills''),
      (''Q24_5'', ''Soft Skills''),
      (''Q24_6'', ''Recruiting/Internships'')]"

text \<open>\<^verbatim>\<open>df[relevant_columns].copy()\<close>: a new frame with these columns.\<close>

definition df_subset :: "dataframe \<Rightarrow> error + dataframe" where
  "df_subset df =
     (case missing_column relevant_columns df of
        Some e \<Rightarrow> Inl e
      | None \<Rightarrow>
          Inr \<lparr>columns = relevant_columns,
               rows = map (\<lambda>r. map (\<lambda>c. (c, cell_at r c)) relevant_columns) (rows df)\<rparr>)"

text \<open>\<^verbatim>\<open>mean_ranks.rename(index=columns_mapping)\<close>: a name that is not a key is kept.\<close>

definition rename_index :: "(string \<rightharpoonup> string) \<Rightarrow> (string \<times> cell) list \<Rightarrow> (string \<times> cell) list" where
  "rename_index m series = map (\<lambda>(c, v). (case m c of Some l \<Rightarrow> l | None \<Rightarrow> c, v)) series"

text \<open>The rankings \<^verbatim>\<open>sorted_ranks\<close> that the script may compute from the loaded
  frame.\<close>

definition sorted_ranks ::
  "(string \<Rightarrow> rat option) \<Rightarrow> dataframe \<Rightarrow> (string \<times> cell) list \<Rightarrow> bool" where
  "sorted_ranks parse df ranking \<longleftrightarrow>
     (case df_subset df of
        Inl e \<Rightarrow> False
      | Inr sub \<Rightarrow>
          (case coerce_columns parse relevant_columns sub of
             Inl e \<Rightarrow> False
           | Inr sub' \<Rightarrow>
               sort_values_ok
                 (rename_index columns_mapping (column_means relevant_columns sub')) ranking))"

section \<open>The runs of the scripts\<close>

text \<open>
  A run ends normally, by \<^verbatim>\<open>exit(n)\<close>, or by an exception that nothing catches
  (the interpreter then prints the traceback and stops). Of its effects the model
  keeps the error message it prints and the names of the files it has written
  (charts and summaries), in the order of writing; drawing a chart is outside the
  model and taken not to fail.
\<close>

datatype exit_status = Finished | SysExit nat | Uncaught error

record run_result =
  ending :: exit_status
  error_message :: "string list"
  artifacts :: "string list"

definition uncaught :: "error \<Rightarrow> string list \<Rightarrow> run_result" where
  "uncaught e written = \<lparr>ending = Uncaught e, error_message = [], artifacts = written\<rparr>"

definition run_analyze_survey :: "(string \<Rightarrow> rat option) \<Rightarrow> filesystem \<Rightarrow> run_result" where
  "run_analyze_survey parse fs =
     (case load_and_clean_data fs filepath of
        Inl e \<Rightarrow> uncaught e []
      | Inr (df, question_map) \<Rightarrow>
          (case area_1_enrollment_threat df of
             Inl e \<Rightarrow> uncaught e []
           | Inr m1 \<Rightarrow>
               (case area_2_roi_pressure df of
                  Inl e \<Rightarrow> uncaught e [''enrollment_threat.png'']
                | Inr (df2, m2) \<Rightarrow>
                    (case coerce_columns parse cols df2 of
                       Inl e \<Rightarrow> uncaught e [''enrollment_threat.png'', ''roi_vs_pressure.png'']
                     | Inr df3 \<Rightarrow>
                         \<lparr>ending = Finished, error_message = [],
                          artifacts = [''enrollment_threat.png'', ''roi_vs_pressure.png'',
                            ''program_value.png'', ''cpa_pathway_summary.csv'']\<rparr>))))"

text \<open>In \<^verbatim>\<open>analyze_incentive_shift\<close> the pie chart is saved once Q27 and Q52 have been
  read, before the other columns are.\<close>

definition run_analyze_awareness_impact :: "filesystem \<Rightarrow> run_result" where
  "run_analyze_awareness_impact fs =
     (case load_and_clean_data_impact fs filepath of
        Inl e \<Rightarrow> uncaught e []
      | Inr df \<Rightarrow>
          (case analyze_awareness_gap df of
             Inl e \<Rightarrow> uncaught e []
           | Inr metrics_gap \<Rightarrow>
               (case analyze_incentive_shift df of
                  Inl e \<Rightarrow>
                    uncaught e
                      (if missing_column [''Q27'', ''Q52''] df = None
                       then [''awareness_gap.png'', ''incentive_shift_pie.png'']
                       else [''awareness_gap.png''])
                | Inr metrics_incentive \<Rightarrow>
                    \<lparr>ending = Finished, error_message = [],
                     artifacts = [''awareness_gap.png'', ''incentive_shift_pie.png'',
                       ''awareness_impact_summary.txt'']\<rparr>)))"

text \<open>\<^verbatim>\<open>analyze_irreplaceability.py\<close> catches \<^verbatim>\<open>FileNotFoundError\<close>, prints a message
  and calls \<^verbatim>\<open>exit(1)\<close>.\<close>

definition run_analyze_irreplaceability :: "filesystem \<Rightarrow> run_result" where
  "run_analyze_irreplaceability fs =
     (case fs filepath of
        None \<Rightarrow>
          \<lparr>ending = SysExit 1,
           error_message = [''Error: File not found at '' @ filepath],
           artifacts = []\<rparr>
      | Some f \<Rightarrow>
          (case load_irreplaceability f of
             Inl e \<Rightarrow> uncaught e []
           | Inr df \<Rightarrow>
               (case df_subset df of
                  Inl e \<Rightarrow> uncaught e []
                | Inr sub \<Rightarrow>
                    \<lparr>ending = Finished, error_message = [],
                     artifacts = [''insights.txt'', ''program_irreplaceability.png'']\<rparr>)))"

section \<open>Example inputs\<close>

text \<open>An instance of the numeric parser for the examples: unsigned decimal
  integers, nothing else.\<close>

definition digit_of :: "char \<Rightarrow> nat option" where
  "digit_of c = map_of (zip ''0123456789'' [0, 1, 2, 3, 4, 5, 6, 7, 8, 9]) c"

fun parse_digits :: "nat \<Rightarrow> string \<Rightarrow> nat option" where
  "parse_digits acc [] = Some acc"
| "parse_digits acc (c # cs) =
     (case digit_of c of None \<Rightarrow> None | Some d \<Rightarrow> parse_digits (10 * acc + d) cs)"

definition parse_decimal :: "string \<Rightarrow> rat option" where
  "parse_decimal s = (if s = [] then None else map_option of_nat (parse_digits 0 s))"

definition frame :: "string list \<Rightarrow> cell list list \<Rightarrow> dataframe" where
  "frame cs rs = \<lparr>columns = cs, rows = map (zip cs) rs\<rparr>"

text \<open>A table in which nobody answered Q49.\<close>

definition nobody_answered_q49 :: dataframe where
  "nobody_answered_q49 = frame [''Q27'', ''Q31'', ''Q35'', ''Q44'', ''Q49'', ''Q55'']
     [[Str ''Graduate'', Str ''Yes'', NaN, Str ''Probably yes'', NaN, NaN],
      [Str ''Undergraduate'', NaN, NaN, NaN, NaN, Str ''Definitely yes'']]"

text \<open>Two graduate students, one of whom left Q31 blank.\<close>

definition one_blank_q31 :: dataframe where
  "one_blank_q31 = frame [''Q27'', ''Q31'', ''Q35'', ''Q53'']
     [[Str ''Graduate'', Str ''No'', Str ''Somewhat likely'', NaN],
      [Str ''Graduate'', NaN, NaN, NaN]]"

text \<open>Scenario B of the specification on Q35: the answers coded 1, 2, 4 and 5 and one
  text outside the table, among unaware graduate students, beside one undergraduate
  student; and the same with a blank in place of that text.\<close>

definition scenario_b :: dataframe where
  "scenario_b = frame [''Q27'', ''Q31'', ''Q35'', ''Q52'', ''Q53'']
     [[Str ''Graduate'', Str ''No'', Str ''Extremely unlikely'', NaN, NaN],
      [Str ''Graduate'', Str ''No'', Str ''Somewhat unlikely'', NaN, NaN],
      [Str ''Graduate'', Str ''No'', Str ''bad'', NaN, NaN],
      [Str ''Graduate'', Str ''No'', Str ''Somewhat likely'', NaN, NaN],
      [Str ''Graduate'', Str ''No'', Str ''Extremely likely'', NaN, NaN],
      [Str ''Undergraduate'', NaN, NaN, Str ''No change'', Str ''Yes'']]"

definition scenario_b_blank :: dataframe where
  "scenario_b_blank = frame [''Q27'', ''Q31'', ''Q35'', ''Q52'', ''Q53'']
     [[Str ''Graduate'', Str ''No'', Str ''Extremely unlikely'', NaN, NaN],
      [Str ''Graduate'', Str ''No'', Str ''Somewhat unlikely'', NaN, NaN],
      [Str ''Graduate'', Str ''No'', NaN, NaN, NaN],
      [Str ''Graduate'', Str ''No'', Str ''Somewhat likely'', NaN, NaN],
      [Str ''Graduate'', Str ''No'', Str ''Extremely likely'', NaN, NaN],
      [Str ''Undergraduate'', NaN, NaN, Str ''No change'', Str ''Yes'']]"

text \<open>An unaware graduate student whose Q35 answer is a text outside the table.\<close>

definition bad_q35_row :: row where
  "bad_q35_row = zip [''Q27'', ''Q31'', ''Q35'', ''Q52'', ''Q53'']
     [Str ''Graduate'', Str ''No'', Str ''bad'', NaN, NaN]"

text \<open>Scenario B on the ROI belief: the answers coded 1, 2, 4 and 5 and one text
  outside the table, all with an employer requirement.\<close>

definition roi_scenario_b :: dataframe where
  "roi_scenario_b = frame [''Q44'', ''Q49'', ''Q55'']
     [[NaN, Str ''Yes'', Str ''Definitely not''],
      [Str ''Probably not'', Str ''Yes'', NaN],
      [NaN, Str ''Yes'', Str ''bad''],
      [NaN, Str ''Yes'', Str ''Probably yes''],
      [Str ''Definitely yes'', Str ''Yes'', NaN]]"

text \<open>Two respondents whose rankings give Q24\_1 and Q24\_2 the same mean.\<close>

definition tied_ranks :: dataframe where
  "tied_ranks = frame [''Q24_1'', ''Q24_2'', ''Q24_3'', ''Q24_4'', ''Q24_5'', ''Q24_6'']
     [[Str ''1'', Str ''2'', Str ''3'', Str ''4'', Str ''5'', Str ''6''],
      [Str ''2'', Str ''1'', Str ''3'', Str ''4'', Str ''5'', Str ''6'']]"

text \<open>The same frame after the numeric coercion, its means, and the means with the
  two tied fields exchanged.\<close>

definition tied_ranks_coerced :: dataframe where
  "tied_ranks_coerced = frame [''Q24_1'', ''Q24_2'', ''Q24_3'', ''Q24_4'', ''Q24_5'', ''Q24_6'']
     [[Num 1, Num 2, Num 3, Num 4, Num 5, Num 6],
      [Num 2, Num 1, Num 3, Num 4, Num 5, Num 6]]"

definition tied_ranks_means :: "(string \<times> cell) list" where
  "tied_ranks_means =
     [(''Q24_1'', Num (3 / 2)), (''Q24_2'', Num (3 / 2)), (''Q24_3'', Num 3),
      (''Q24_4'', Num 4), (''Q24_5'', Num 5), (''Q24_6'', Num 6)]"

definition tied_ranks_swapped :: "(string \<times> cell) list" where
  "tied_ranks_swapped =
     [(''Q24_2'', Num (3 / 2)), (''Q24_1'', Num (3 / 2)), (''Q24_3'', Num 3),
      (''Q24_4'', Num 4), (''Q24_5'', Num 5), (''Q24_6'', Num 6)]"

text \<open>A file whose first record is the import-metadata row, followed by one
  response; and a file that starts with a response.\<close>

definition metadata_cell :: "string \<Rightarrow> cell" where
  "metadata_cell name = Str (import_id_prefix @ [CHR '':'', CHR 0x22] @ name @ [CHR 0x22, CHR ''}''])"

definition file_with_metadata :: csv_file where
  "file_with_metadata =
     \<lparr>codes = [''StartDate'', ''Q27'', ''Q24_1''],
      texts = [''Start Date'', ''Are you a graduate or an undergraduate student?'', ''CPA Exam Prep''],
      records =
        [[metadata_cell ''startDate'', metadata_cell ''QID27'', metadata_cell ''QID24_1''],
         [Str ''2025-12-01 10:00:00'', Str ''Graduate'', Str ''2'']]\<rparr>"

definition file_without_metadata :: csv_file where
  "file_without_metadata =
     \<lparr>codes = [''StartDate'', ''Q27'', ''Q24_1''],
      texts = [''Start Date'', ''Are you a graduate or an undergraduate student?'', ''CPA Exam Prep''],
      records =
        [[Str ''2025-12-01 10:00:00'', Str ''Graduate'', Str ''2''],
         [Str ''2025-12-02 11:30:00'', Str ''Undergraduate'', Str ''5'']]\<rparr>"

text \<open>Rankings with a text that is not a number and a blank, beside a column that
  the analysis does not rank.\<close>

definition ranks_with_text :: dataframe where
  "ranks_with_text =
     frame [''Q27'', ''Q24_1'', ''Q24_2'', ''Q24_3'', ''Q24_4'', ''Q24_5'', ''Q24_6'']
       [[Str ''Graduate'', Str ''1'', Str ''2'', Str ''3'', Str ''4'', Str ''5'', Str ''6''],
        [Str ''Graduate'', Str ''n/a'', Str ''1'', NaN, Num 2, Str ''4'', Str ''3''],
        [Str ''Undergraduate'', Str ''3'', Str ''1'', Str ''2'', Str ''6'', Str ''5'', Str ''4'']]"

definition ranks_with_text_coerced :: dataframe where
  "ranks_with_text_coerced =
     frame [''Q27'', ''Q24_1'', ''Q24_2'', ''Q24_3'', ''Q24_4'', ''Q24_5'', ''Q24_6'']
       [[Str ''Graduate'', Num 1, Num 2, Num 3, Num 4, Num 5, Num 6],
        [Str ''Graduate'', NaN, Num 1, NaN, Num 2, Num 4, Num 3],
        [Str ''Undergraduate'', Num 3, Num 1, Num 2, Num 6, Num 5, Num 4]]"

text \<open>Three respondents with answers to the two ROI questions and to Q49.\<close>

definition roi_answers :: dataframe where
  "roi_answers = frame [''Q44'', ''Q49'', ''Q55'']
     [[Str ''Probably not'', Str ''Yes'', Str ''Definitely yes''],
      [Str ''Might or might not'', Str ''Yes'', NaN],
      [NaN, Str ''No'', NaN]]"

section \<open>Properties\<close>

subsection \<open>Frames and cells\<close>

lemma cell_at_update:
  "cell_at (AList.update c v r) c' = (if c' = c then v else cell_at r c')"
  by (simp add: cell_at_def update_conv')

lemma rows_assign: "rows (assign c f df) = map (\<lambda>r. AList.update c (f r) r) (rows df)"
  by (simp add: assign_def)

lemma length_rows_assign: "length (rows (assign c f df)) = length (rows df)"
  by (simp add: rows_assign)

lemma columns_assign: "set (columns (assign c f df)) = insert c (set (columns df))"
  by (auto simp: assign_def)

lemma cell_at_assign:
  "i < length (rows df) \<Longrightarrow>
   cell_at (rows (assign c f df) ! i) c' =
     (if c' = c then f (rows df ! i) else cell_at (rows df ! i) c')"
  by (simp add: rows_assign cell_at_update)

subsection \<open>Counting values\<close>

lemma map_of_tabulate:
  "map_of (map (\<lambda>v. (v, f v)) ys) k = (if k \<in> set ys then Some (f k) else None)"
  by (induction ys) auto

lemma counts_get_value_counts:
  assumes "v \<noteq> NaN"
  shows "counts_get (value_counts xs) v 0 = length (filter (\<lambda>c. c = v) xs)"
proof -
  let ?vs = "filter (\<lambda>c. c \<noteq> NaN) xs"
  have a: "counts_get (value_counts xs) v 0 = (if v \<in> set ?vs then count_list ?vs v else 0)"
    by (simp add: counts_get_def value_counts_def Let_def map_of_tabulate)
  have b: "count_list ?vs v = length (filter (\<lambda>c. c = v) ?vs)"
    by (simp add: count_list_eq_length_filter) (metis)
  have c: "filter (\<lambda>c. c = v) ?vs = filter (\<lambda>c. c = v) xs"
    using assms by (induction xs) auto
  have d: "v \<notin> set ?vs \<Longrightarrow> length (filter (\<lambda>c. c = v) xs) = 0"
    using assms by (auto simp: filter_empty_conv)
  show ?thesis using a b c d by auto
qed

lemma length_filter_disj:
  "(\<And>x. \<not> (P x \<and> Q x)) \<Longrightarrow>
   length (filter (\<lambda>x. P x \<or> Q x) xs) = length (filter P xs) + length (filter Q xs)"
  by (induction xs) auto

subsection \<open>Ordinal codes\<close>

lemma q35_map_range: "q35_map s = Some n \<Longrightarrow> 1 \<le> n \<and> n \<le> 5"
  by (auto simp: q35_map_def split: if_splits)

lemma roi_map_range: "roi_map s = Some n \<Longrightarrow> 1 \<le> n \<and> n \<le> 5"
  by (auto simp: roi_map_def split: if_splits)

lemma q35_code_le_2:
  "le_num (series_map q35_map c) 2 \<longleftrightarrow>
     c = Str ''Extremely unlikely'' \<or> c = Str ''Somewhat unlikely''"
  by (cases c) (auto simp: le_num_def series_map_def q35_map_def)

lemma unlikely_count_codes:
  "unlikely_count df =
     length (filter (\<lambda>r. le_num (series_map q35_map (cell_at r ''Q35'')) 2) (unaware_grads df))"
proof -
  let ?xs = "map (\<lambda>r. cell_at r ''Q35'') (unaware_grads df)"
  have "unlikely_count df =
      length (filter (\<lambda>c. c = Str ''Extremely unlikely'') ?xs) +
      length (filter (\<lambda>c. c = Str ''Somewhat unlikely'') ?xs)"
    by (simp add: unlikely_count_def Let_def counts_get_value_counts)
  also have "\<dots> =
      length (filter (\<lambda>c. c = Str ''Extremely unlikely'' \<or> c = Str ''Somewhat unlikely'') ?xs)"
    by (subst length_filter_disj) auto
  also have "\<dots> = length (filter (\<lambda>c. le_num (series_map q35_map c) 2) ?xs)"
    by (simp add: q35_code_le_2)
  also have "\<dots> =
      length (filter (\<lambda>r. le_num (series_map q35_map (cell_at r ''Q35'')) 2) (unaware_grads df))"
    by (simp add: filter_map o_def)
  finally show ?thesis .
qed

lemma series_map_cases:
  "series_map d c = NaN \<or> (\<exists>s n. c = Str s \<and> d s = Some n \<and> series_map d c = Num (of_int n))"
  by (cases c) (auto simp: series_map_def split: option.splits)

lemma potential_loss_count_codes:
  "potential_loss_count df =
     length (filter
       (\<lambda>r. case cell_at r ''Q35'' of
              Str s \<Rightarrow> (case q35_map s of Some n \<Rightarrow> n \<le> 2 | None \<Rightarrow> False)
            | _ \<Rightarrow> False)
       (filter (\<lambda>r. cell_at r ''Q31'' = Str ''No'') (grad_students df)))"
proof -
  have p: "le_num (series_map q35_map c) 2 \<longleftrightarrow>
      (case c of Str s \<Rightarrow> (case q35_map s of Some n \<Rightarrow> n \<le> 2 | None \<Rightarrow> False) | _ \<Rightarrow> False)" for c
    by (cases c) (auto simp: le_num_def series_map_def split: option.splits)
  show ?thesis
    by (simp add: potential_loss_count_def unaware_grad_def filter_map o_def cell_at_update p)
qed

lemma roi_df_rows:
  assumes "r \<in> set (roi_df (add_roi_belief_score df))"
  shows "\<exists>s n. cell_at r ''ROI_Belief_Raw'' = Str s \<and> roi_map s = Some n \<and>
           cell_at r ''ROI_Belief_Score'' = Num (of_int n)"
proof -
  from assms obtain r0 where r: "r = AList.update ''ROI_Belief_Score''
        (series_map roi_map (cell_at r0 ''ROI_Belief_Raw'')) r0"
    and nn: "cell_at r ''ROI_Belief_Score'' \<noteq> NaN"
    by (auto simp: roi_df_def add_roi_belief_score_def rows_assign)
  have s: "cell_at r ''ROI_Belief_Score'' = series_map roi_map (cell_at r0 ''ROI_Belief_Raw'')"
    and w: "cell_at r ''ROI_Belief_Raw'' = cell_at r0 ''ROI_Belief_Raw''"
    by (simp_all add: r cell_at_update)
  from series_map_cases [of roi_map "cell_at r0 ''ROI_Belief_Raw''"] nn s w
  show ?thesis by auto
qed

subsection \<open>The frame written by area 2\<close>

lemma area_2_frame:
  "area_2_roi_pressure df = Inr (df', m) \<Longrightarrow> df' = add_roi_belief_score (add_roi_belief_raw df)"
  by (auto simp: area_2_roi_pressure_def Let_def split: option.splits if_splits)

lemma cell_at_roi_raw_after_score:
  "i < length (rows df) \<Longrightarrow>
   cell_at (rows (add_roi_belief_score (add_roi_belief_raw df)) ! i) ''ROI_Belief_Raw'' =
   fillna (cell_at (rows df ! i) ''Q55'') (cell_at (rows df ! i) ''Q44'')"
  by (simp add: add_roi_belief_score_def add_roi_belief_raw_def cell_at_assign length_rows_assign)

subsection \<open>Loading\<close>

lemma startswith_iff: "startswith s p \<longleftrightarrow> (\<exists>t. s = p @ t)"
  unfolding startswith_def
  by (metis append_eq_conv_conj append_take_drop_id)

subsection \<open>Numeric coercion\<close>

lemma to_numeric_idem: "to_numeric parse (to_numeric parse c) = to_numeric parse c"
  by (cases c) (auto simp: to_numeric_def split: option.splits)

lemma columns_assign_present: "c \<in> set (columns df) \<Longrightarrow> columns (assign c f df) = columns df"
  by (simp add: assign_def)

lemma missing_column_None: "missing_column cs df = None \<longleftrightarrow> set cs \<subseteq> set (columns df)"
  by (induction cs) auto

lemma coerce_columns_Inr:
  "set cs \<subseteq> set (columns df) \<Longrightarrow> \<exists>df'. coerce_columns parse cs df = Inr df'"
  by (induction cs arbitrary: df) (auto simp: columns_assign_present)

lemma coerce_columns_cells:
  "coerce_columns parse cs df = Inr df' \<Longrightarrow>
   columns df' = columns df \<and> length (rows df') = length (rows df) \<and>
   (\<forall>i < length (rows df). \<forall>c.
      cell_at (rows df' ! i) c =
        (if c \<in> set cs then to_numeric parse (cell_at (rows df ! i) c)
         else cell_at (rows df ! i) c))"
proof (induction cs arbitrary: df)
  case Nil
  then show ?case by simp
next
  case (Cons col cs)
  let ?df1 = "assign col (\<lambda>r. to_numeric parse (cell_at r col)) df"
  from Cons.prems have col: "col \<in> set (columns df)"
    and run: "coerce_columns parse cs ?df1 = Inr df'"
    by (auto split: if_splits)
  note ih = Cons.IH [OF run]
  have c1: "columns ?df1 = columns df" using col by (rule columns_assign_present)
  have l1: "length (rows ?df1) = length (rows df)" by (rule length_rows_assign)
  show ?case
  proof (intro conjI allI impI)
    show "columns df' = columns df" using ih c1 by simp
    show "length (rows df') = length (rows df)" using ih l1 by simp
  next
    fix i c assume i: "i < length (rows df)"
    then have "cell_at (rows df' ! i) c =
        (if c \<in> set cs then to_numeric parse (cell_at (rows ?df1 ! i) c)
         else cell_at (rows ?df1 ! i) c)"
      using ih l1 by simp
    moreover have "cell_at (rows ?df1 ! i) c =
        (if c = col then to_numeric parse (cell_at (rows df ! i) col) else cell_at (rows df ! i) c)"
      using i by (simp add: cell_at_assign)
    ultimately show "cell_at (rows df' ! i) c =
        (if c \<in> set (col # cs) then to_numeric parse (cell_at (rows df ! i) c)
         else cell_at (rows df ! i) c)"
      by (auto simp: to_numeric_idem)
  qed
qed

lemma coerce_columns_column:
  assumes "coerce_columns parse cs df = Inr df'"
  shows "column df' c = (if c \<in> set cs then map (to_numeric parse) (column df c) else column df c)"
proof -
  note f = coerce_columns_cells [OF assms]
  show ?thesis
    unfolding column_def
    by (rule nth_equalityI) (use f in \<open>auto\<close>)
qed

lemma numbers_to_numeric:
  "numbers (map (to_numeric parse) xs) =
     List.map_filter (\<lambda>x. case x of Num v \<Rightarrow> Some v | Str s \<Rightarrow> parse s | NaN \<Rightarrow> None) xs"
  by (induction xs)
     (auto simp: numbers_def List.map_filter_simps to_numeric_def split: cell.splits option.splits)

lemma df_subset_column:
  assumes "df_subset df = Inr sub" and "c \<in> set relevant_columns"
  shows "column sub c = column df c"
proof -
  from assms(1) have sub: "sub = \<lparr>columns = relevant_columns,
               rows = map (\<lambda>r. map (\<lambda>c. (c, cell_at r c)) relevant_columns) (rows df)\<rparr>"
    by (auto simp: df_subset_def split: option.splits)
  have "cell_at (map (\<lambda>c. (c, cell_at r c)) relevant_columns) c = cell_at r c" for r
    using assms(2) by (simp add: cell_at_def [of "map _ _"] map_of_tabulate)
  then show ?thesis by (simp add: sub column_def)
qed

lemma column_means_coerced:
  assumes "coerce_columns parse cs df = Inr df'"
  shows "column_means cs df' = map (\<lambda>c. (c, mean (map (to_numeric parse) (column df c)))) cs"
  unfolding column_means_def
  by (rule map_cong) (simp_all add: coerce_columns_column [OF assms])

subsection \<open>The contract of sorting\<close>

lemma nan_last_le_total: "nan_last_le a b \<or> nan_last_le b a"
  by (cases a; cases b) (auto simp: nan_last_le_def)

lemma nan_last_le_trans: "nan_last_le a b \<Longrightarrow> nan_last_le b c \<Longrightarrow> nan_last_le a c"
  by (cases a; cases b; cases c) (auto simp: nan_last_le_def)

lemma nan_last_le_antisym:
  "nan_last_le a b \<Longrightarrow> nan_last_le b a \<Longrightarrow> \<forall>s. a \<noteq> Str s \<Longrightarrow> \<forall>s. b \<noteq> Str s \<Longrightarrow> a = b"
  by (cases a; cases b) (auto simp: nan_last_le_def)

lemma mean_not_Str: "mean xs \<noteq> Str s"
  by (simp add: mean_def Let_def)

lemma rename_index_not_Str:
  "\<forall>x \<in> set series. \<forall>s. snd x \<noteq> Str s \<Longrightarrow> \<forall>x \<in> set (rename_index m series). \<forall>s. snd x \<noteq> Str s"
  by (auto simp: rename_index_def)

lemma sorted_insert_exists:
  assumes "sorted_wrt (\<lambda>a b. nan_last_le (snd a) (snd b)) ys"
  shows "\<exists>zs. mset zs = add_mset x (mset ys) \<and> sorted_wrt (\<lambda>a b. nan_last_le (snd a) (snd b)) zs"
  using assms
proof (induction ys)
  case Nil
  have "mset [x] = add_mset x (mset []) \<and> sorted_wrt (\<lambda>a b. nan_last_le (snd a) (snd b)) [x]"
    by simp
  then show ?case by blast
next
  case (Cons y ys)
  show ?case
  proof (cases "nan_last_le (snd x) (snd y)")
    case True
    with Cons.prems have "sorted_wrt (\<lambda>a b. nan_last_le (snd a) (snd b)) (x # y # ys)"
      by (auto intro: nan_last_le_trans)
    moreover have "mset (x # y # ys) = add_mset x (mset (y # ys))" by simp
    ultimately show ?thesis by blast
  next
    case False
    then have yx: "nan_last_le (snd y) (snd x)" using nan_last_le_total by blast
    from Cons obtain zs where zs: "mset zs = add_mset x (mset ys)"
      and s: "sorted_wrt (\<lambda>a b. nan_last_le (snd a) (snd b)) zs"
      by auto
    have "set zs = insert x (set ys)" using zs by (metis set_mset_add_mset_insert set_mset_mset)
    with Cons.prems yx s have "sorted_wrt (\<lambda>a b. nan_last_le (snd a) (snd b)) (y # zs)"
      by auto
    moreover have "mset (y # zs) = add_mset x (mset (y # ys))" using zs by simp
    ultimately show ?thesis by blast
  qed
qed

lemma sort_values_exists: "\<exists>ranking. sort_values_ok series ranking"
proof (induction series)
  case Nil
  show ?case by (simp add: sort_values_ok_def)
next
  case (Cons x xs)
  then obtain ys where "mset ys = mset xs" "sorted_wrt (\<lambda>a b. nan_last_le (snd a) (snd b)) ys"
    by (auto simp: sort_values_ok_def)
  with sorted_insert_exists [of ys x] show ?case
    by (auto simp: sort_values_ok_def)
qed

lemma sorted_wrt_unique:
  assumes "sorted_wrt nan_last_le xs" and "sorted_wrt nan_last_le ys"
    and "mset xs = mset ys" and "\<forall>x \<in> set xs. \<forall>s. x \<noteq> Str s"
  shows "xs = ys"
  using assms
proof (induction xs arbitrary: ys)
  case Nil
  then show ?case by simp
next
  case (Cons x xs)
  from Cons.prems(3) obtain y ys' where ys: "ys = y # ys'"
    by (cases ys) auto
  have sets: "set (x # xs) = set (y # ys')"
    using Cons.prems(3) ys by (metis set_mset_mset)
  have "x = y"
  proof (rule ccontr)
    assume ne: "x \<noteq> y"
    with sets have "x \<in> set ys'" and "y \<in> set xs" by auto
    with Cons.prems(1,2) ys have "nan_last_le y x" and "nan_last_le x y" by auto
    moreover have "\<forall>s. x \<noteq> Str s" "\<forall>s. y \<noteq> Str s"
      using Cons.prems(4) \<open>y \<in> set xs\<close> by auto
    ultimately show False using ne nan_last_le_antisym by blast
  qed
  moreover have "xs = ys'"
    using Cons.IH [of ys'] Cons.prems ys \<open>x = y\<close> by auto
  ultimately show ?case using ys by simp
qed

lemma sort_values_same_values:
  assumes "sort_values_ok series r1" and "sort_values_ok series r2"
    and "\<forall>x \<in> set series. \<forall>s. snd x \<noteq> Str s"
  shows "map snd r1 = map snd r2"
proof (rule sorted_wrt_unique)
  show "sorted_wrt nan_last_le (map snd r1)" "sorted_wrt nan_last_le (map snd r2)"
    using assms(1,2) by (simp_all add: sort_values_ok_def sorted_wrt_map)
  have "mset r1 = mset r2" using assms(1,2) by (simp add: sort_values_ok_def)
  then show "mset (map snd r1) = mset (map snd r2)" by (metis mset_map)
  have "set r1 = set series" using assms(1) by (metis sort_values_ok_def set_mset_mset)
  then show "\<forall>x \<in> set (map snd r1). \<forall>s. x \<noteq> Str s" using assms(3) by auto
qed

lemma sort_values_ascending:
  assumes "sort_values_ok series ranking" and "i < j" and "j < length ranking"
  shows "nan_last_le (snd (ranking ! i)) (snd (ranking ! j))"
  using assms by (simp add: sort_values_ok_def sorted_wrt_iff_nth_less)

subsection \<open>The subsets of the threshold aggregations\<close>

lemma roi_rows:
  "rows (add_roi_belief_score (add_roi_belief_raw df)) =
     map (\<lambda>r. AList.update ''ROI_Belief_Score''
            (series_map roi_map (fillna (cell_at r ''Q55'') (cell_at r ''Q44'')))
            (AList.update ''ROI_Belief_Raw'' (fillna (cell_at r ''Q55'') (cell_at r ''Q44'')) r))
       (rows df)"
  by (simp add: add_roi_belief_score_def add_roi_belief_raw_def rows_assign cell_at_update o_def)

lemma length_roi_df:
  "length (roi_df (add_roi_belief_score (add_roi_belief_raw df))) =
     length (filter
       (\<lambda>r. series_map roi_map (fillna (cell_at r ''Q55'') (cell_at r ''Q44'')) \<noteq> NaN \<and>
            cell_at r ''Q49'' \<noteq> NaN) (rows df))"
  by (simp add: roi_df_def roi_rows filter_map o_def cell_at_update)

lemma length_reluctant:
  "length (reluctant (add_roi_belief_score (add_roi_belief_raw df))) =
     length (filter
       (\<lambda>r. le_num (series_map roi_map (fillna (cell_at r ''Q55'') (cell_at r ''Q44''))) 3 \<and>
            cell_at r ''Q49'' = Str ''Yes'') (rows df))"
proof -
  have "filter (\<lambda>r. le_num (cell_at r ''ROI_Belief_Score'') 3 \<and> cell_at r ''Q49'' = Str ''Yes'')
          (roi_df d) =
        filter (\<lambda>r. le_num (cell_at r ''ROI_Belief_Score'') 3 \<and> cell_at r ''Q49'' = Str ''Yes'')
          (rows d)" for d
    unfolding roi_df_def filter_filter
    by (rule filter_cong) (auto simp: le_num_def)
  then show ?thesis
    by (simp add: reluctant_def roi_rows filter_map o_def cell_at_update)
qed

lemma unaware_grads_append:
  "unaware_grads (df\<lparr>rows := rows df @ [r]\<rparr>) =
     unaware_grads df @
     (if cell_at r ''Q27'' = Str ''Graduate'' \<and> cell_at r ''Q31'' = Str ''No'' \<and>
         cell_at r ''Q35'' \<noteq> NaN then [r] else [])"
  by (simp add: unaware_grads_def)

section \<open>The claims\<close>

subsection \<open>Percentages over an empty subset\<close>

text \<open>
  Claim C1. Every percentage over a subset is 0.0 when its denominator is 0, without
  an exception, the percentage of reluctant students included. Evaluated on a table
  in which nobody answered Q49: the guarded percentages of area 1 are 0, while
  \<^verbatim>\<open>area_2_roi_pressure\<close> divides by the length of the empty subset and raises
  \<^verbatim>\<open>ZeroDivisionError\<close>.
\<close>

theorem area_2_unguarded_division:
  "area_2_roi_pressure nobody_answered_q49 = Inl ZeroDivisionError \<and>
   area_1_enrollment_threat nobody_answered_q49 =
     Inr \<lparr>Total_Grad_Students = 1, Pct_Unaware = 0,
          Pct_Potential_Loss_of_Unaware = 0, Pct_Potential_Loss_Total = 0\<rparr>"
  by code_simp

subsection \<open>Blank answers and denominators\<close>

text \<open>
  Claim C2. A blank answer is left out of the numerator and of the denominator of a
  percentage; in particular the percentage of graduate students unaware of the
  pathway has only the non-blank Q31 answers in its denominator. Evaluated on two
  graduate students, one answering No and one leaving Q31 blank:
  \<^verbatim>\<open>analyze_awareness_gap\<close> reports 100, \<^verbatim>\<open>area_1_enrollment_threat\<close> divides by
  all graduate students and reports 50.
\<close>

theorem area_1_counts_blank_q31:
  "area_1_enrollment_threat one_blank_q31 =
     Inr \<lparr>Total_Grad_Students = 2, Pct_Unaware = 50,
          Pct_Potential_Loss_of_Unaware = 0, Pct_Potential_Loss_Total = 0\<rparr> \<and>
   analyze_awareness_gap one_blank_q31 =
     Inr \<lparr>grad_unaware_pct = 100, undergrad_unaware_pct = 0\<rparr>"
  by code_simp

subsection \<open>Threshold aggregation\<close>

text \<open>
  Claim C3, as stated: on the values 1, 2, "bad", 4, 5 with threshold 2 the
  aggregation yields 4 valid answers, 2 at or under the threshold, 50 percent. On
  that input \<^verbatim>\<open>analyze_incentive_shift\<close> counts 5 answers and reports 40 percent, and
  so does \<^verbatim>\<open>area_1_enrollment_threat\<close>: the text outside the table is not blank and
  stays in the denominator.
\<close>

theorem scenario_b_counterexample:
  "length (unaware_grads scenario_b) = 5 \<and>
   unlikely_count scenario_b = 2 \<and>
   analyze_incentive_shift scenario_b = Inr \<lparr>regret_pct = 40\<rparr> \<and>
   potential_loss_count scenario_b = 2 \<and>
   area_1_enrollment_threat scenario_b =
     Inr \<lparr>Total_Grad_Students = 5, Pct_Unaware = 100,
          Pct_Potential_Loss_of_Unaware = 40, Pct_Potential_Loss_Total = 40\<rparr>"
  by code_simp

text \<open>
  Claim C3, amended. The threshold aggregation counts the rows whose ordinal code is
  at most the threshold. \<^verbatim>\<open>analyze_incentive_shift\<close> does no ordinal coding: it
  selects the unaware graduate students who answered Q35 (\<^verbatim>\<open>notna()\<close>), counts the
  two labels coded 1 and 2, and divides by the size of that selection (0 when it is
  empty); so a text outside the table, put into any table, is one more row of the
  denominator and is not counted. \<^verbatim>\<open>area_2_roi_pressure\<close> codes first and drops
  the rows without a code (\<^verbatim>\<open>dropna\<close>): when it returns, its percentage is the
  count of the codes at most 3 with Q49 = Yes over the rows with a code and a
  non-blank Q49, which are at least one.
\<close>

theorem threshold_over_non_blank:
  "unaware_grads df =
     filter (\<lambda>r. cell_at r ''Q27'' = Str ''Graduate'' \<and> cell_at r ''Q31'' = Str ''No'' \<and>
                 cell_at r ''Q35'' \<noteq> NaN) (rows df) \<and>
   unlikely_count df =
     length (filter (\<lambda>r. le_num (series_map q35_map (cell_at r ''Q35'')) 2) (unaware_grads df)) \<and>
   unlikely_count df \<le> length (unaware_grads df) \<and>
   (missing_column [''Q27'', ''Q52'', ''Q31'', ''Q35'', ''Q53''] df = None \<longrightarrow>
      analyze_incentive_shift df =
        Inr \<lparr>regret_pct =
          (if length (unaware_grads df) = 0 then 0
           else 100 * of_nat (unlikely_count df) / of_nat (length (unaware_grads df)))\<rparr>) \<and>
   (cell_at r ''Q27'' = Str ''Graduate'' \<and> cell_at r ''Q31'' = Str ''No'' \<and>
    cell_at r ''Q35'' = Str s \<and> q35_map s = None \<longrightarrow>
      length (unaware_grads (df\<lparr>rows := rows df @ [r]\<rparr>)) = length (unaware_grads df) + 1 \<and>
      unlikely_count (df\<lparr>rows := rows df @ [r]\<rparr>) = unlikely_count df) \<and>
   (\<forall>df' m. area_2_roi_pressure df = Inr (df', m) \<longrightarrow>
      Num_Reluctant_Students m =
        length (filter
          (\<lambda>r. le_num (series_map roi_map (fillna (cell_at r ''Q55'') (cell_at r ''Q44''))) 3 \<and>
               cell_at r ''Q49'' = Str ''Yes'') (rows df)) \<and>
      Pct_Reluctant_Students m =
        of_nat (Num_Reluctant_Students m) /
        of_nat (length (filter
          (\<lambda>r. series_map roi_map (fillna (cell_at r ''Q55'') (cell_at r ''Q44'')) \<noteq> NaN \<and>
               cell_at r ''Q49'' \<noteq> NaN) (rows df))) * 100 \<and>
      0 < length (filter
          (\<lambda>r. series_map roi_map (fillna (cell_at r ''Q55'') (cell_at r ''Q44'')) \<noteq> NaN \<and>
               cell_at r ''Q49'' \<noteq> NaN) (rows df)))"
proof (intro conjI allI impI)
  show "unaware_grads df =
     filter (\<lambda>r. cell_at r ''Q27'' = Str ''Graduate'' \<and> cell_at r ''Q31'' = Str ''No'' \<and>
                 cell_at r ''Q35'' \<noteq> NaN) (rows df)"
    by (simp add: unaware_grads_def)
  show "unlikely_count df =
     length (filter (\<lambda>r. le_num (series_map q35_map (cell_at r ''Q35'')) 2) (unaware_grads df))"
    by (rule unlikely_count_codes)
  show "unlikely_count df \<le> length (unaware_grads df)"
    by (simp add: unlikely_count_codes)
next
  assume "missing_column [''Q27'', ''Q52'', ''Q31'', ''Q35'', ''Q53''] df = None"
  then show "analyze_incentive_shift df =
        Inr \<lparr>regret_pct =
          (if length (unaware_grads df) = 0 then 0
           else 100 * of_nat (unlikely_count df) / of_nat (length (unaware_grads df)))\<rparr>"
    unfolding analyze_incentive_shift_def guarded_pct_def by simp
next
  assume r: "cell_at r ''Q27'' = Str ''Graduate'' \<and> cell_at r ''Q31'' = Str ''No'' \<and>
    cell_at r ''Q35'' = Str s \<and> q35_map s = None"
  then have a: "unaware_grads (df\<lparr>rows := rows df @ [r]\<rparr>) = unaware_grads df @ [r]"
    by (simp add: unaware_grads_append)
  show "length (unaware_grads (df\<lparr>rows := rows df @ [r]\<rparr>)) = length (unaware_grads df) + 1"
    by (simp add: a)
  have "\<not> le_num (series_map q35_map (cell_at r ''Q35'')) 2"
    using r by (simp add: series_map_def le_num_def)
  then show "unlikely_count (df\<lparr>rows := rows df @ [r]\<rparr>) = unlikely_count df"
    by (simp add: unlikely_count_codes a)
next
  fix df' m assume run: "area_2_roi_pressure df = Inr (df', m)"
  let ?d = "add_roi_belief_score (add_roi_belief_raw df)"
  from run have m: "m = \<lparr>Num_Reluctant_Students = length (reluctant ?d),
      Pct_Reluctant_Students = (of_nat (length (reluctant ?d)) / of_nat (length (roi_df ?d))) * 100\<rparr>"
    and pos: "length (roi_df ?d) \<noteq> 0"
    by (auto simp: area_2_roi_pressure_def Let_def split: option.splits if_splits)
  show "Num_Reluctant_Students m =
        length (filter
          (\<lambda>r. le_num (series_map roi_map (fillna (cell_at r ''Q55'') (cell_at r ''Q44''))) 3 \<and>
               cell_at r ''Q49'' = Str ''Yes'') (rows df))"
    by (simp add: m length_reluctant)
  show "Pct_Reluctant_Students m =
        of_nat (Num_Reluctant_Students m) /
        of_nat (length (filter
          (\<lambda>r. series_map roi_map (fillna (cell_at r ''Q55'') (cell_at r ''Q44'')) \<noteq> NaN \<and>
               cell_at r ''Q49'' \<noteq> NaN) (rows df))) * 100"
    by (simp add: m length_roi_df)
  show "0 < length (filter
          (\<lambda>r. series_map roi_map (fillna (cell_at r ''Q55'') (cell_at r ''Q44'')) \<noteq> NaN \<and>
               cell_at r ''Q49'' \<noteq> NaN) (rows df))"
    using pos by (simp add: length_roi_df)
qed

theorem threshold_over_non_blank_witness:
  "length (unaware_grads scenario_b_blank) = 4 \<and> unlikely_count scenario_b_blank = 2 \<and>
   analyze_incentive_shift scenario_b_blank = Inr \<lparr>regret_pct = 50\<rparr> \<and>
   length (unaware_grads (scenario_b_blank\<lparr>rows := rows scenario_b_blank @ [bad_q35_row]\<rparr>)) = 5 \<and>
   unlikely_count (scenario_b_blank\<lparr>rows := rows scenario_b_blank @ [bad_q35_row]\<rparr>) = 2 \<and>
   area_2_roi_pressure roi_scenario_b =
     Inr (add_roi_belief_score (add_roi_belief_raw roi_scenario_b),
          \<lparr>Num_Reluctant_Students = 2, Pct_Reluctant_Students = 50\<rparr>)"
proof -
  have m: "missing_column [''Q27'', ''Q52'', ''Q31'', ''Q35'', ''Q53''] scenario_b_blank = None"
    by code_simp
  have l: "length (unaware_grads scenario_b_blank) = 4" by code_simp
  have u: "unlikely_count scenario_b_blank = 2" by code_simp
  have b: "cell_at bad_q35_row ''Q27'' = Str ''Graduate'' \<and>
      cell_at bad_q35_row ''Q31'' = Str ''No'' \<and>
      cell_at bad_q35_row ''Q35'' = Str ''bad'' \<and> q35_map ''bad'' = None"
    by code_simp
  have "case area_2_roi_pressure roi_scenario_b of Inl e \<Rightarrow> False | Inr p \<Rightarrow> True"
    by code_simp
  then obtain d2 m2 where a: "area_2_roi_pressure roi_scenario_b = Inr (d2, m2)"
    by (cases "area_2_roi_pressure roi_scenario_b") auto
  have d: "d2 = add_roi_belief_score (add_roi_belief_raw roi_scenario_b)"
    using a by (rule area_2_frame)
  have n: "length (filter
          (\<lambda>r. le_num (series_map roi_map (fillna (cell_at r ''Q55'') (cell_at r ''Q44''))) 3 \<and>
               cell_at r ''Q49'' = Str ''Yes'') (rows roi_scenario_b)) = 2"
      "length (filter
          (\<lambda>r. series_map roi_map (fillna (cell_at r ''Q55'') (cell_at r ''Q44'')) \<noteq> NaN \<and>
               cell_at r ''Q49'' \<noteq> NaN) (rows roi_scenario_b)) = 4"
    by code_simp+
  from threshold_over_non_blank [of roi_scenario_b bad_q35_row "''bad''"] a n
  have "Num_Reluctant_Students m2 = 2 \<and> Pct_Reluctant_Students m2 = 50"
    by simp
  then have m2: "m2 = \<lparr>Num_Reluctant_Students = 2, Pct_Reluctant_Students = 50\<rparr>"
    by (cases m2) simp
  from threshold_over_non_blank [of scenario_b_blank bad_q35_row "''bad''"] m l u b
  have "analyze_incentive_shift scenario_b_blank = Inr \<lparr>regret_pct = 50\<rparr> \<and>
      length (unaware_grads (scenario_b_blank\<lparr>rows := rows scenario_b_blank @ [bad_q35_row]\<rparr>)) = 5 \<and>
      unlikely_count (scenario_b_blank\<lparr>rows := rows scenario_b_blank @ [bad_q35_row]\<rparr>) = 2"
    by simp
  then show ?thesis using l u a d m2 by simp
qed

subsection \<open>The import-metadata row\<close>

text \<open>
  Claim C5, as stated: after loading, the first data row is discarded if and only if
  its first cell starts with the import-metadata prefix. \<^verbatim>\<open>analyze_irreplaceability.py\<close>
  loads a file whose first record bears the prefix and keeps that record as the
  first row of its table, where \<^verbatim>\<open>load_and_clean_data\<close> discards it.
\<close>

theorem irreplaceability_keeps_metadata_row:
  "load_irreplaceability file_with_metadata =
     Inr (frame (codes file_with_metadata) (records file_with_metadata)) \<and>
   is_import_metadata (hd (hd (records file_with_metadata))) \<and>
   load_and_clean_data [filepath \<mapsto> file_with_metadata] filepath =
     Inr (frame (codes file_with_metadata) (tl (records file_with_metadata)),
          zip (codes file_with_metadata) (texts file_with_metadata))"
  by code_simp

text \<open>
  Claim C5, amended. For a file with at least one column and one record, the two
  \<^verbatim>\<open>load_and_clean_data\<close> functions discard the first record exactly when its first
  cell is a text that starts with the import-metadata prefix, and keep every other
  record; \<^verbatim>\<open>analyze_irreplaceability.py\<close> removes the question texts only and keeps
  every record.
\<close>

theorem load_discards_metadata_row:
  assumes "fs path = Some f" and "codes f = c # cs" and "records f = (x # xs) # rs"
  shows "load_and_clean_data fs path =
           Inr (\<lparr>columns = codes f,
                 rows = (if \<exists>t. x = Str (import_id_prefix @ t) then map (zip (codes f)) rs
                         else map (zip (codes f)) ((x # xs) # rs))\<rparr>,
                zip (codes f) (texts f)) \<and>
         load_and_clean_data_impact fs path =
           Inr \<lparr>columns = codes f,
                rows = (if \<exists>t. x = Str (import_id_prefix @ t) then map (zip (codes f)) rs
                        else map (zip (codes f)) ((x # xs) # rs))\<rparr> \<and>
         load_irreplaceability f =
           Inr \<lparr>columns = codes f, rows = map (zip (codes f)) ((x # xs) # rs)\<rparr>"
proof -
  have m: "is_import_metadata x \<longleftrightarrow> (\<exists>t. x = Str (import_id_prefix @ t))"
    by (cases x) (auto simp: is_import_metadata_def startswith_iff)
  have i: "iloc_0_0 (read_csv_two_headers f) = Inr x"
    using assms by (simp add: iloc_0_0_def read_csv_two_headers_def cell_at_def)
  show ?thesis
    using assms i m
    by (simp add: load_and_clean_data_def load_and_clean_data_impact_def Let_def
        read_csv_two_headers_def load_irreplaceability_def drop_0_def read_csv_one_header_def)
qed

theorem load_discards_metadata_row_witness:
  "load_and_clean_data [filepath \<mapsto> file_with_metadata] filepath =
     Inr (frame (codes file_with_metadata) (tl (records file_with_metadata)),
          zip (codes file_with_metadata) (texts file_with_metadata)) \<and>
   load_and_clean_data [filepath \<mapsto> file_without_metadata] filepath =
     Inr (frame (codes file_without_metadata) (records file_without_metadata),
          zip (codes file_without_metadata) (texts file_without_metadata)) \<and>
   load_irreplaceability file_with_metadata =
     Inr (frame (codes file_with_metadata) (records file_with_metadata))"
proof -
  have a: "[filepath \<mapsto> file_with_metadata] filepath = Some file_with_metadata"
    and b: "[filepath \<mapsto> file_without_metadata] filepath = Some file_without_metadata"
    by simp_all
  have c: "codes file_with_metadata = ''StartDate'' # [''Q27'', ''Q24_1'']"
    and d: "records file_with_metadata =
      (metadata_cell ''startDate'' # [metadata_cell ''QID27'', metadata_cell ''QID24_1'']) #
      [[Str ''2025-12-01 10:00:00'', Str ''Graduate'', Str ''2'']]"
    by (simp_all add: file_with_metadata_def)
  have e: "codes file_without_metadata = ''StartDate'' # [''Q27'', ''Q24_1'']"
    and f: "records file_without_metadata =
      (Str ''2025-12-01 10:00:00'' # [Str ''Graduate'', Str ''2'']) #
      [[Str ''2025-12-02 11:30:00'', Str ''Undergraduate'', Str ''5'']]"
    by (simp_all add: file_without_metadata_def)
  have g: "\<exists>t. metadata_cell ''startDate'' = Str (import_id_prefix @ t)"
    by (simp add: metadata_cell_def)
  have h: "\<not> (\<exists>t. Str ''2025-12-01 10:00:00'' = Str (import_id_prefix @ t))"
    by (simp add: import_id_prefix_def)
  show ?thesis
    using load_discards_metadata_row
            [of "[filepath \<mapsto> file_with_metadata]" filepath file_with_metadata, OF a c d]
          load_discards_metadata_row
            [of "[filepath \<mapsto> file_without_metadata]" filepath file_without_metadata, OF b e f]
          g h
    by (simp add: frame_def c d e f)
qed

subsection \<open>A missing input file\<close>

text \<open>
  Claim C6. When there is no file at the input path, loading fails: the run reports
  the error and ends without having written any output file. In
  \<^verbatim>\<open>analyze_survey.py\<close> and \<^verbatim>\<open>analyze_awareness_impact.py\<close> the exception of
  \<^verbatim>\<open>read_csv\<close> ends the run; \<^verbatim>\<open>analyze_irreplaceability.py\<close> prints a message and
  exits with status 1.
\<close>

theorem missing_file_is_fatal:
  assumes "fs filepath = None"
  shows "run_analyze_survey parse fs =
           \<lparr>ending = Uncaught FileNotFoundError, error_message = [], artifacts = []\<rparr> \<and>
         run_analyze_awareness_impact fs =
           \<lparr>ending = Uncaught FileNotFoundError, error_message = [], artifacts = []\<rparr> \<and>
         run_analyze_irreplaceability fs =
           \<lparr>ending = SysExit 1,
            error_message = [''Error: File not found at '' @ filepath],
            artifacts = []\<rparr>"
  using assms
  by (simp add: run_analyze_survey_def run_analyze_awareness_impact_def
        run_analyze_irreplaceability_def load_and_clean_data_def
        load_and_clean_data_impact_def uncaught_def)

theorem missing_file_is_fatal_witness:
  "run_analyze_survey parse_decimal Map.empty =
     \<lparr>ending = Uncaught FileNotFoundError, error_message = [], artifacts = []\<rparr> \<and>
   run_analyze_awareness_impact Map.empty =
     \<lparr>ending = Uncaught FileNotFoundError, error_message = [], artifacts = []\<rparr> \<and>
   ending (run_analyze_irreplaceability Map.empty) = SysExit 1 \<and>
   artifacts (run_analyze_irreplaceability Map.empty) = []"
proof -
  have h: "(Map.empty :: filesystem) filepath = None" by simp
  show ?thesis using missing_file_is_fatal [OF h, of parse_decimal] by simp
qed

subsection \<open>Ranking by mean\<close>

text \<open>
  Claim C4, as stated: the fields are ranked by mean in a stable ascending sort, so
  that fields with equal means keep their original order. For two respondents who
  give Q24\_1 and Q24\_2 the same mean, the ranking that puts Q24\_2 first is an
  ascending rearrangement of the means, which is all that the call
  \<^verbatim>\<open>sort_values()\<close> with the default algorithm asks for, and it does not keep the
  original order of the two.
\<close>

theorem tie_order_counterexample:
  "coerce_columns parse_decimal cols tied_ranks = Inr tied_ranks_coerced \<and>
   column_means cols tied_ranks_coerced = tied_ranks_means \<and>
   sort_values_ok tied_ranks_means tied_ranks_swapped \<and>
   area_3_mean_ranks parse_decimal tied_ranks tied_ranks_swapped \<and>
   \<not> ties_keep_order tied_ranks_means tied_ranks_swapped"
  by code_simp

text \<open>
  Claim C4, amended. When the six Q24 columns are there, both scripts produce a
  ranking; every ranking they may produce holds each field once with the arithmetic
  mean of its non-missing values (blank when it has none), in ascending order of
  mean with the blank means last; the sequence of means in the ranking is the same
  for all of them, so that only the order among fields with equal means is open.
\<close>

theorem mean_ranks_ascending:
  assumes "set cols \<subseteq> set (columns df)"
  shows "(\<exists>ranking. area_3_mean_ranks parse df ranking) \<and>
   (\<forall>ranking. area_3_mean_ranks parse df ranking \<longrightarrow>
      mset ranking = mset (map (\<lambda>c. (c, mean (map (to_numeric parse) (column df c)))) cols) \<and>
      (\<forall>i j. i < j \<and> j < length ranking \<longrightarrow>
         nan_last_le (snd (ranking ! i)) (snd (ranking ! j))) \<and>
      (\<forall>ranking'. area_3_mean_ranks parse df ranking' \<longrightarrow> map snd ranking' = map snd ranking)) \<and>
   (\<exists>ranking. sorted_ranks parse df ranking) \<and>
   (\<forall>ranking. sorted_ranks parse df ranking \<longrightarrow>
      mset ranking =
        mset (rename_index columns_mapping
          (map (\<lambda>c. (c, mean (map (to_numeric parse) (column df c)))) relevant_columns)) \<and>
      (\<forall>i j. i < j \<and> j < length ranking \<longrightarrow>
         nan_last_le (snd (ranking ! i)) (snd (ranking ! j))) \<and>
      (\<forall>ranking'. sorted_ranks parse df ranking' \<longrightarrow> map snd ranking' = map snd ranking)) \<and>
   mean (map (to_numeric parse) xs) =
     (let vs = List.map_filter
                 (\<lambda>x. case x of Num v \<Rightarrow> Some v | Str s \<Rightarrow> parse s | NaN \<Rightarrow> None) xs
      in if vs = [] then NaN else Num (sum_list vs / of_nat (length vs)))"
proof -
  let ?means = "\<lambda>cs. map (\<lambda>c. (c, mean (map (to_numeric parse) (column df c)))) cs"
  have rc: "relevant_columns = cols" by (simp add: relevant_columns_def cols_def)
  obtain df' where df': "coerce_columns parse cols df = Inr df'"
    using coerce_columns_Inr [OF assms] by blast
  have m3: "column_means cols df' = ?means cols"
    by (rule column_means_coerced [OF df'])
  have a3: "area_3_mean_ranks parse df r \<longleftrightarrow> sort_values_ok (?means cols) r" for r
    by (simp add: area_3_mean_ranks_def df' m3)
  have "missing_column relevant_columns df = None"
    using assms by (simp add: missing_column_None rc)
  then obtain sub where sub: "df_subset df = Inr sub" and csub: "columns sub = relevant_columns"
    by (auto simp: df_subset_def)
  obtain sub' where sub': "coerce_columns parse relevant_columns sub = Inr sub'"
    using coerce_columns_Inr [of relevant_columns sub] csub by auto
  have "column_means relevant_columns sub' =
      map (\<lambda>c. (c, mean (map (to_numeric parse) (column sub c)))) relevant_columns"
    by (rule column_means_coerced [OF sub'])
  also have "\<dots> = ?means relevant_columns"
    by (rule map_cong) (simp_all add: df_subset_column [OF sub])
  finally have ms: "column_means relevant_columns sub' = ?means relevant_columns" .
  have ai: "sorted_ranks parse df r \<longleftrightarrow>
      sort_values_ok (rename_index columns_mapping (?means relevant_columns)) r" for r
    by (simp add: sorted_ranks_def sub sub' ms)
  have ns: "\<forall>x \<in> set (?means cs). \<forall>s. snd x \<noteq> Str s" for cs
    by (auto simp: mean_not_Str)
  have nr: "\<forall>x \<in> set (rename_index columns_mapping (?means cs)). \<forall>s. snd x \<noteq> Str s" for cs
    by (rule rename_index_not_Str) (rule ns)
  have e3: "\<exists>ranking. area_3_mean_ranks parse df ranking"
    using sort_values_exists [of "?means cols"] by (simp add: a3)
  have ei: "\<exists>ranking. sorted_ranks parse df ranking"
    using sort_values_exists [of "rename_index columns_mapping (?means relevant_columns)"]
    by (simp add: ai)
  have p3: "mset r = mset (?means cols) \<and>
      (\<forall>i j. i < j \<and> j < length r \<longrightarrow> nan_last_le (snd (r ! i)) (snd (r ! j))) \<and>
      (\<forall>r'. area_3_mean_ranks parse df r' \<longrightarrow> map snd r' = map snd r)"
    if "area_3_mean_ranks parse df r" for r
  proof -
    from that have s: "sort_values_ok (?means cols) r" by (simp add: a3)
    have "map snd r' = map snd r" if "area_3_mean_ranks parse df r'" for r'
      using sort_values_same_values [OF _ s ns, of r'] that by (simp add: a3)
    then show ?thesis
      using s sort_values_ascending [OF s] by (simp add: sort_values_ok_def)
  qed
  have pi: "mset r = mset (rename_index columns_mapping (?means relevant_columns)) \<and>
      (\<forall>i j. i < j \<and> j < length r \<longrightarrow> nan_last_le (snd (r ! i)) (snd (r ! j))) \<and>
      (\<forall>r'. sorted_ranks parse df r' \<longrightarrow> map snd r' = map snd r)"
    if "sorted_ranks parse df r" for r
  proof -
    from that have s: "sort_values_ok (rename_index columns_mapping (?means relevant_columns)) r"
      by (simp add: ai)
    have "map snd r' = map snd r" if "sorted_ranks parse df r'" for r'
      using sort_values_same_values [OF _ s nr, of r'] that by (simp add: ai)
    then show ?thesis
      using s sort_values_ascending [OF s] by (simp add: sort_values_ok_def)
  qed
  have mf: "mean (map (to_numeric parse) xs) =
     (let vs = List.map_filter
                 (\<lambda>x. case x of Num v \<Rightarrow> Some v | Str s \<Rightarrow> parse s | NaN \<Rightarrow> None) xs
      in if vs = [] then NaN else Num (sum_list vs / of_nat (length vs)))"
    by (simp add: mean_def numbers_to_numeric)
  show ?thesis
    using e3 ei p3 pi mf by blast
qed

theorem mean_ranks_ascending_witness:
  "set cols \<subseteq> set (columns tied_ranks) \<and>
   area_3_mean_ranks parse_decimal tied_ranks tied_ranks_means \<and>
   area_3_mean_ranks parse_decimal tied_ranks tied_ranks_swapped \<and>
   map snd tied_ranks_swapped = map snd tied_ranks_means \<and>
   nan_last_le (snd (tied_ranks_swapped ! 1)) (snd (tied_ranks_swapped ! 2))"
proof -
  have h: "set cols \<subseteq> set (columns tied_ranks)" by code_simp
  have a: "area_3_mean_ranks parse_decimal tied_ranks tied_ranks_means" by code_simp
  have b: "area_3_mean_ranks parse_decimal tied_ranks tied_ranks_swapped" by code_simp
  have l: "length tied_ranks_swapped = 6" by (simp add: tied_ranks_swapped_def)
  from mean_ranks_ascending [OF h, of parse_decimal] a b
  have "map snd tied_ranks_swapped = map snd tied_ranks_means"
    by blast
  moreover from mean_ranks_ascending [OF h, of parse_decimal] b l
  have "nan_last_le (snd (tied_ranks_swapped ! 1)) (snd (tied_ranks_swapped ! 2))"
    by simp
  ultimately show ?thesis using h a b by simp
qed

subsection \<open>Ordinal coding\<close>

text \<open>
  Claim C7. Ordinal coding with the fixed table is total: for every cell the result
  is a code from 1 to 5 or the missing value, a label of the table gives its code
  and any other label gives the missing value. The missing value is not a zero: no
  threshold comparison holds of it, a row with a label outside the table is never
  counted among the potential losses, and such a row is neither in the subset of
  the ROI analysis nor among the reluctant students.
\<close>

theorem ordinal_coding_total:
  "(series_map q35_map c = NaN \<or>
      (\<exists>n. series_map q35_map c = Num (of_int n) \<and> 1 \<le> n \<and> n \<le> 5)) \<and>
   (series_map roi_map c = NaN \<or>
      (\<exists>n. series_map roi_map c = Num (of_int n) \<and> 1 \<le> n \<and> n \<le> 5)) \<and>
   (\<forall>n. q35_map s = Some n \<longrightarrow> series_map q35_map (Str s) = Num (of_int n) \<and> 1 \<le> n \<and> n \<le> 5) \<and>
   (q35_map s = None \<longrightarrow> series_map q35_map (Str s) = NaN) \<and>
   (\<forall>n. roi_map s = Some n \<longrightarrow> series_map roi_map (Str s) = Num (of_int n) \<and> 1 \<le> n \<and> n \<le> 5) \<and>
   (roi_map s = None \<longrightarrow> series_map roi_map (Str s) = NaN) \<and>
   \<not> le_num NaN t \<and>
   potential_loss_count df =
     length (filter
       (\<lambda>r. case cell_at r ''Q35'' of
              Str s \<Rightarrow> (case q35_map s of Some n \<Rightarrow> n \<le> 2 | None \<Rightarrow> False)
            | _ \<Rightarrow> False)
       (filter (\<lambda>r. cell_at r ''Q31'' = Str ''No'') (grad_students df))) \<and>
   (\<forall>r \<in> set (roi_df (add_roi_belief_score (add_roi_belief_raw df))).
      \<exists>s n. cell_at r ''ROI_Belief_Raw'' = Str s \<and> roi_map s = Some n) \<and>
   (\<forall>r \<in> set (reluctant (add_roi_belief_score (add_roi_belief_raw df))).
      \<exists>s n. cell_at r ''ROI_Belief_Raw'' = Str s \<and> roi_map s = Some n \<and> n \<le> 3)"
proof (intro conjI)
  show "series_map q35_map c = NaN \<or>
      (\<exists>n. series_map q35_map c = Num (of_int n) \<and> 1 \<le> n \<and> n \<le> 5)"
    using series_map_cases [of q35_map c] q35_map_range by blast
  show "series_map roi_map c = NaN \<or>
      (\<exists>n. series_map roi_map c = Num (of_int n) \<and> 1 \<le> n \<and> n \<le> 5)"
    using series_map_cases [of roi_map c] roi_map_range by blast
  show "\<forall>n. q35_map s = Some n \<longrightarrow> series_map q35_map (Str s) = Num (of_int n) \<and> 1 \<le> n \<and> n \<le> 5"
    using q35_map_range by (simp add: series_map_def)
  show "q35_map s = None \<longrightarrow> series_map q35_map (Str s) = NaN"
    by (simp add: series_map_def)
  show "\<forall>n. roi_map s = Some n \<longrightarrow> series_map roi_map (Str s) = Num (of_int n) \<and> 1 \<le> n \<and> n \<le> 5"
    using roi_map_range by (simp add: series_map_def)
  show "roi_map s = None \<longrightarrow> series_map roi_map (Str s) = NaN"
    by (simp add: series_map_def)
  show "\<not> le_num NaN t" by (simp add: le_num_def)
  show "potential_loss_count df =
     length (filter
       (\<lambda>r. case cell_at r ''Q35'' of
              Str s \<Rightarrow> (case q35_map s of Some n \<Rightarrow> n \<le> 2 | None \<Rightarrow> False)
            | _ \<Rightarrow> False)
       (filter (\<lambda>r. cell_at r ''Q31'' = Str ''No'') (grad_students df)))"
    by (rule potential_loss_count_codes)
  show "\<forall>r \<in> set (roi_df (add_roi_belief_score (add_roi_belief_raw df))).
      \<exists>s n. cell_at r ''ROI_Belief_Raw'' = Str s \<and> roi_map s = Some n"
    using roi_df_rows by blast
  show "\<forall>r \<in> set (reluctant (add_roi_belief_score (add_roi_belief_raw df))).
      \<exists>s n. cell_at r ''ROI_Belief_Raw'' = Str s \<and> roi_map s = Some n \<and> n \<le> 3"
  proof
    fix r assume r: "r \<in> set (reluctant (add_roi_belief_score (add_roi_belief_raw df)))"
    then have "r \<in> set (roi_df (add_roi_belief_score (add_roi_belief_raw df)))"
      and le: "le_num (cell_at r ''ROI_Belief_Score'') 3"
      by (auto simp: reluctant_def)
    from roi_df_rows [OF this(1)] le
    show "\<exists>s n. cell_at r ''ROI_Belief_Raw'' = Str s \<and> roi_map s = Some n \<and> n \<le> 3"
      by (auto simp: le_num_def)
  qed
qed

theorem ordinal_coding_total_witness:
  "q35_map ''Somewhat unlikely'' = Some 2 \<and> roi_map ''Somewhat unlikely'' = None \<and>
   series_map q35_map (Str ''Somewhat unlikely'') = Num 2 \<and>
   series_map roi_map (Str ''Somewhat unlikely'') = NaN \<and>
   roi_map ''Probably yes'' = Some 4 \<and> q35_map ''Probably yes'' = None \<and>
   series_map roi_map (Str ''Probably yes'') = Num 4 \<and>
   series_map q35_map (Str ''Probably yes'') = NaN \<and>
   potential_loss_count scenario_b = 2 \<and>
   length (roi_df (add_roi_belief_score (add_roi_belief_raw roi_answers))) = 2 \<and>
   map (\<lambda>r. cell_at r ''ROI_Belief_Raw'')
     (reluctant (add_roi_belief_score (add_roi_belief_raw roi_answers))) =
     [Str ''Might or might not'']"
proof -
  have a: "q35_map ''Somewhat unlikely'' = Some 2" "roi_map ''Somewhat unlikely'' = None"
    "roi_map ''Probably yes'' = Some 4" "q35_map ''Probably yes'' = None"
    by code_simp+
  have b: "length (filter
       (\<lambda>r. case cell_at r ''Q35'' of
              Str s \<Rightarrow> (case q35_map s of Some n \<Rightarrow> n \<le> 2 | None \<Rightarrow> False)
            | _ \<Rightarrow> False)
       (filter (\<lambda>r. cell_at r ''Q31'' = Str ''No'') (grad_students scenario_b))) = 2"
    by code_simp
  have c: "length (roi_df (add_roi_belief_score (add_roi_belief_raw roi_answers))) = 2"
    "map (\<lambda>r. cell_at r ''ROI_Belief_Raw'')
       (reluctant (add_roi_belief_score (add_roi_belief_raw roi_answers))) =
       [Str ''Might or might not'']"
    by code_simp+
  from ordinal_coding_total [of "Str ''bad''" "''Somewhat unlikely''" 2 scenario_b]
       ordinal_coding_total [of NaN "''Probably yes''" 3 roi_answers] a b c
  show ?thesis by simp
qed

subsection \<open>Numeric coercion of the rankings\<close>

text \<open>
  Claim C8. Numeric coercion of the ranking columns parses each value; a value that
  does not parse becomes missing and does not enter the mean, and the coercion
  never aborts: when the six columns are there it returns a frame, in
  \<^verbatim>\<open>analyze_survey.py\<close> and in \<^verbatim>\<open>analyze_irreplaceability.py\<close> alike, whatever the
  cells hold. The mean of a coerced column is taken over exactly the numbers and
  the texts that parse.
\<close>

theorem numeric_coercion_never_aborts:
  assumes "set cols \<subseteq> set (columns df)"
  shows "\<exists>df' sub sub'.
     coerce_columns parse cols df = Inr df' \<and>
     df_subset df = Inr sub \<and> coerce_columns parse relevant_columns sub = Inr sub' \<and>
     (\<forall>c \<in> set cols.
        column df' c = map (to_numeric parse) (column df c) \<and>
        column sub' c = map (to_numeric parse) (column df c) \<and>
        numbers (column df' c) =
          List.map_filter (\<lambda>x. case x of Num v \<Rightarrow> Some v | Str s \<Rightarrow> parse s | NaN \<Rightarrow> None)
            (column df c) \<and>
        mean (column df' c) =
          (if numbers (column df' c) = [] then NaN
           else Num (sum_list (numbers (column df' c)) / of_nat (length (numbers (column df' c)))))) \<and>
     (\<forall>s. parse s = None \<longrightarrow> to_numeric parse (Str s) = NaN)"
proof -
  have rc: "relevant_columns = cols" by (simp add: relevant_columns_def cols_def)
  obtain df' where df': "coerce_columns parse cols df = Inr df'"
    using coerce_columns_Inr [OF assms] by blast
  have "missing_column relevant_columns df = None"
    using assms by (simp add: missing_column_None rc)
  then obtain sub where sub: "df_subset df = Inr sub" and csub: "columns sub = relevant_columns"
    by (auto simp: df_subset_def)
  obtain sub' where sub': "coerce_columns parse relevant_columns sub = Inr sub'"
    using coerce_columns_Inr [of relevant_columns sub] csub by auto
  have a: "column df' c = map (to_numeric parse) (column df c)" if "c \<in> set cols" for c
    using coerce_columns_column [OF df'] that by simp
  have b: "column sub' c = map (to_numeric parse) (column df c)" if "c \<in> set cols" for c
    using coerce_columns_column [OF sub'] df_subset_column [OF sub] that by (simp add: rc)
  have c: "to_numeric parse (Str s) = NaN" if "parse s = None" for s
    using that by (simp add: to_numeric_def)
  show ?thesis
    using df' sub sub' a b c by (auto simp: numbers_to_numeric mean_def Let_def)
qed

theorem numeric_coercion_never_aborts_witness:
  "set cols \<subseteq> set (columns ranks_with_text) \<and>
   (\<exists>df'. coerce_columns parse_decimal cols ranks_with_text = Inr df' \<and>
      column df' ''Q24_1'' = [Num 1, NaN, Num 3] \<and> mean (column df' ''Q24_1'') = Num 2)"
proof -
  have h: "set cols \<subseteq> set (columns ranks_with_text)" by code_simp
  have m: "''Q24_1'' \<in> set cols" by (simp add: cols_def)
  have e: "map (to_numeric parse_decimal) (column ranks_with_text ''Q24_1'') = [Num 1, NaN, Num 3]"
    by code_simp
  have n: "mean [Num 1, NaN, Num 3] = Num 2" by code_simp
  from numeric_coercion_never_aborts [OF h, of parse_decimal] m e n h
  show ?thesis by fastforce
qed

subsection \<open>What the analyses write into the table\<close>

text \<open>
  Claim C9, as stated: no analysis step changes the values of an existing column,
  the numeric coercion of the Q24 columns included. \<^verbatim>\<open>area_3_program_value\<close>
  assigns the coerced series to the column it came from: the text that is not a
  number is overwritten by the missing value and the text "1" by the number 1.
\<close>

theorem area_3_overwrites_q24:
  "coerce_columns parse_decimal cols ranks_with_text = Inr ranks_with_text_coerced \<and>
   cell_at (rows ranks_with_text ! 1) ''Q24_1'' = Str ''n/a'' \<and>
   cell_at (rows ranks_with_text_coerced ! 1) ''Q24_1'' = NaN \<and>
   cell_at (rows ranks_with_text ! 0) ''Q24_1'' = Str ''1'' \<and>
   cell_at (rows ranks_with_text_coerced ! 0) ''Q24_1'' = Num 1"
  by code_simp

text \<open>
  Claim C9, amended. The analyses keep the number and the order of the rows.
  \<^verbatim>\<open>area_2_roi_pressure\<close> writes the two derived columns and leaves every other
  column as it was; the coercion loop of \<^verbatim>\<open>area_3_program_value\<close> replaces each of
  the six Q24 columns by its numeric coercion and leaves every other column as it
  was. The other analyses work on copies and return numbers only.
\<close>

theorem analyses_write_only_their_columns:
  "(\<forall>df' m. area_2_roi_pressure df = Inr (df', m) \<longrightarrow>
      length (rows df') = length (rows df) \<and>
      set (columns df') = set (columns df) \<union> {''ROI_Belief_Raw'', ''ROI_Belief_Score''} \<and>
      (\<forall>i < length (rows df). \<forall>c.
         c \<noteq> ''ROI_Belief_Raw'' \<and> c \<noteq> ''ROI_Belief_Score'' \<longrightarrow>
         cell_at (rows df' ! i) c = cell_at (rows df ! i) c)) \<and>
   (\<forall>df'. coerce_columns parse cols df = Inr df' \<longrightarrow>
      length (rows df') = length (rows df) \<and>
      columns df' = columns df \<and>
      (\<forall>i < length (rows df). \<forall>c.
         cell_at (rows df' ! i) c =
           (if c \<in> set cols then to_numeric parse (cell_at (rows df ! i) c)
            else cell_at (rows df ! i) c)))"
proof (intro conjI allI impI)
  fix df' m assume "area_2_roi_pressure df = Inr (df', m)"
  then have d: "df' = add_roi_belief_score (add_roi_belief_raw df)" by (rule area_2_frame)
  show "length (rows df') = length (rows df)"
    by (simp add: d add_roi_belief_score_def add_roi_belief_raw_def length_rows_assign)
  show "set (columns df') = set (columns df) \<union> {''ROI_Belief_Raw'', ''ROI_Belief_Score''}"
    by (auto simp: d add_roi_belief_score_def add_roi_belief_raw_def columns_assign)
  fix i c assume "i < length (rows df)" "c \<noteq> ''ROI_Belief_Raw'' \<and> c \<noteq> ''ROI_Belief_Score''"
  then show "cell_at (rows df' ! i) c = cell_at (rows df ! i) c"
    by (simp add: d add_roi_belief_score_def add_roi_belief_raw_def cell_at_assign length_rows_assign)
next
  fix df' assume r: "coerce_columns parse cols df = Inr df'"
  note f = coerce_columns_cells [OF r]
  show "length (rows df') = length (rows df)" using f by simp
  show "columns df' = columns df" using f by simp
  fix i c assume "i < length (rows df)"
  then show "cell_at (rows df' ! i) c =
           (if c \<in> set cols then to_numeric parse (cell_at (rows df ! i) c)
            else cell_at (rows df ! i) c)"
    using f by simp
qed

theorem analyses_write_only_their_columns_witness:
  "(\<exists>df' m. area_2_roi_pressure roi_answers = Inr (df', m) \<and>
      length (rows df') = 3 \<and>
      cell_at (rows df' ! 0) ''Q44'' = Str ''Probably not'') \<and>
   (\<exists>df'. coerce_columns parse_decimal cols ranks_with_text = Inr df' \<and>
      length (rows df') = 3 \<and>
      cell_at (rows df' ! 1) ''Q27'' = Str ''Graduate'' \<and>
      cell_at (rows df' ! 1) ''Q24_1'' = NaN)"
proof -
  have "case area_2_roi_pressure roi_answers of Inl e \<Rightarrow> False | Inr p \<Rightarrow> True"
    by code_simp
  then obtain df2 m where a: "area_2_roi_pressure roi_answers = Inr (df2, m)"
    by (cases "area_2_roi_pressure roi_answers") auto
  have "case coerce_columns parse_decimal cols ranks_with_text of Inl e \<Rightarrow> False | Inr p \<Rightarrow> True"
    by code_simp
  then obtain df3 where b: "coerce_columns parse_decimal cols ranks_with_text = Inr df3"
    by (cases "coerce_columns parse_decimal cols ranks_with_text") auto
  have n: "length (rows roi_answers) = 3" "length (rows ranks_with_text) = 3"
    by code_simp+
  have c: "cell_at (rows roi_answers ! 0) ''Q44'' = Str ''Probably not''"
    "cell_at (rows ranks_with_text ! 1) ''Q27'' = Str ''Graduate''"
    "to_numeric parse_decimal (cell_at (rows ranks_with_text ! 1) ''Q24_1'') = NaN"
    by code_simp+
  have k: "''Q27'' \<notin> set cols" "''Q24_1'' \<in> set cols" by code_simp+
  from analyses_write_only_their_columns [of roi_answers parse_decimal] a n
  have "length (rows df2) = 3 \<and> cell_at (rows df2 ! 0) ''Q44'' = cell_at (rows roi_answers ! 0) ''Q44''"
    by simp
  moreover from analyses_write_only_their_columns [of ranks_with_text parse_decimal] b n k
  have "length (rows df3) = 3 \<and>
      cell_at (rows df3 ! 1) ''Q27'' = cell_at (rows ranks_with_text ! 1) ''Q27'' \<and>
      cell_at (rows df3 ! 1) ''Q24_1'' =
        to_numeric parse_decimal (cell_at (rows ranks_with_text ! 1) ''Q24_1'')"
    by simp
  ultimately show ?thesis using a b c by simp
qed

subsection \<open>The combined ROI belief\<close>

text \<open>
  Claim C10. For every row of the table, the combined ROI-belief raw value written
  by \<^verbatim>\<open>area_2_roi_pressure\<close> is the row's Q55 answer when Q55 is not blank and the
  row's Q44 answer otherwise; it is blank only when both are blank. The rows keep
  their number and order, and the frame that the function leaves holds these values.
\<close>

theorem roi_belief_raw_q55_first:
  "length (rows (add_roi_belief_raw df)) = length (rows df) \<and>
   (\<forall>i < length (rows df).
      cell_at (rows (add_roi_belief_raw df) ! i) ''ROI_Belief_Raw'' =
        (if cell_at (rows df ! i) ''Q55'' \<noteq> NaN then cell_at (rows df ! i) ''Q55''
         else cell_at (rows df ! i) ''Q44'') \<and>
      (cell_at (rows (add_roi_belief_raw df) ! i) ''ROI_Belief_Raw'' = NaN \<longleftrightarrow>
         cell_at (rows df ! i) ''Q55'' = NaN \<and> cell_at (rows df ! i) ''Q44'' = NaN) \<and>
      (\<forall>df' m. area_2_roi_pressure df = Inr (df', m) \<longrightarrow>
         cell_at (rows df' ! i) ''ROI_Belief_Raw'' =
           cell_at (rows (add_roi_belief_raw df) ! i) ''ROI_Belief_Raw''))"
proof (intro conjI allI impI)
  show "length (rows (add_roi_belief_raw df)) = length (rows df)"
    by (simp add: add_roi_belief_raw_def length_rows_assign)
next
  fix i assume i: "i < length (rows df)"
  have raw: "cell_at (rows (add_roi_belief_raw df) ! i) ''ROI_Belief_Raw'' =
      fillna (cell_at (rows df ! i) ''Q55'') (cell_at (rows df ! i) ''Q44'')"
    using i by (simp add: add_roi_belief_raw_def cell_at_assign)
  show "cell_at (rows (add_roi_belief_raw df) ! i) ''ROI_Belief_Raw'' =
        (if cell_at (rows df ! i) ''Q55'' \<noteq> NaN then cell_at (rows df ! i) ''Q55''
         else cell_at (rows df ! i) ''Q44'')"
    by (simp add: raw fillna_def)
  show "cell_at (rows (add_roi_belief_raw df) ! i) ''ROI_Belief_Raw'' = NaN \<longleftrightarrow>
         cell_at (rows df ! i) ''Q55'' = NaN \<and> cell_at (rows df ! i) ''Q44'' = NaN"
    by (auto simp: raw fillna_def)
  fix df' m assume "area_2_roi_pressure df = Inr (df', m)"
  then have "df' = add_roi_belief_score (add_roi_belief_raw df)"
    by (rule area_2_frame)
  then show "cell_at (rows df' ! i) ''ROI_Belief_Raw'' =
           cell_at (rows (add_roi_belief_raw df) ! i) ''ROI_Belief_Raw''"
    using i by (simp add: raw cell_at_roi_raw_after_score)
qed

theorem roi_belief_raw_q55_first_witness:
  "cell_at (rows (add_roi_belief_raw roi_answers) ! 0) ''ROI_Belief_Raw'' = Str ''Definitely yes'' \<and>
   cell_at (rows (add_roi_belief_raw roi_answers) ! 1) ''ROI_Belief_Raw'' = Str ''Might or might not'' \<and>
   cell_at (rows (add_roi_belief_raw roi_answers) ! 2) ''ROI_Belief_Raw'' = NaN"
proof -
  have n: "length (rows roi_answers) = 3"
    by (simp add: roi_answers_def frame_def)
  have r: "cell_at (rows roi_answers ! 0) ''Q55'' = Str ''Definitely yes''"
      "cell_at (rows roi_answers ! 1) ''Q55'' = NaN"
      "cell_at (rows roi_answers ! 1) ''Q44'' = Str ''Might or might not''"
      "cell_at (rows roi_answers ! 2) ''Q55'' = NaN"
      "cell_at (rows roi_answers ! 2) ''Q44'' = NaN"
    by (simp_all add: roi_answers_def frame_def cell_at_def)
  from roi_belief_raw_q55_first [of roi_answers] n
  have "\<forall>i < 3.
      cell_at (rows (add_roi_belief_raw roi_answers) ! i) ''ROI_Belief_Raw'' =
        (if cell_at (rows roi_answers ! i) ''Q55'' \<noteq> NaN then cell_at (rows roi_answers ! i) ''Q55''
         else cell_at (rows roi_answers ! i) ''Q44'')"
    by simp
  then show ?thesis using r by simp
qed

end
